theory Spec2Isabelle
  imports Complex_Main
begin

section \<open>Data model (framework/strategy.h)\<close>

text \<open>
  Conventions of the embedding.
  \<^item> A C++ \<open>double\<close> is a \<^typ>\<open>real\<close>: arithmetic is exact, there is no NaN and no
    infinity, and a division by zero yields 0 as everywhere in HOL.
  \<^item> A C++ \<open>int\<close> is an \<^typ>\<open>int\<close>; the counters and dates of the program stay far away from
    the 32-bit bounds. A \<open>size_t\<close> is a \<^typ>\<open>nat\<close>.
  \<^item> A data member \<open>x_\<close> of a class is the record field \<open>x'\<close>.
  \<^item> The fields of \<open>Bar\<close>, \<open>Trade\<close> and \<open>Position\<close> carry the prefix of their struct where
    two structs use the same member name.
  \<^item> Console output is not modelled.
\<close>

record Bar =
  bar_date :: int
  bar_open :: real
  bar_high :: real
  bar_low :: real
  bar_close :: real
  bar_volume :: real

definition Bar_default :: Bar where
  "Bar_default = \<lparr>bar_date = 0, bar_open = 0, bar_high = 0, bar_low = 0, bar_close = 0,
     bar_volume = 0\<rparr>"

datatype Trade_Side = BUY | SELL

datatype Trade_Type = ENTRY | EXIT

record Trade =
  trade_date :: int
  trade_side :: Trade_Side
  trade_type :: Trade_Type
  trade_price :: real
  trade_quantity :: real
  trade_pnl :: real
  trade_symbol :: string

definition Trade_default :: Trade where
  "Trade_default = \<lparr>trade_date = 0, trade_side = BUY, trade_type = ENTRY, trade_price = 0,
     trade_quantity = 0, trade_pnl = 0, trade_symbol = []\<rparr>"

record Position =
  pos_symbol :: string
  pos_quantity :: real
  avg_entry_price :: real
  current_price :: real
  unrealized_pnl :: real
  realized_pnl :: real

definition Position_default :: Position where
  "Position_default = \<lparr>pos_symbol = [], pos_quantity = 0, avg_entry_price = 0,
     current_price = 0, unrealized_pnl = 0, realized_pnl = 0\<rparr>"

record RiskConfig =
  max_position_size :: real
  max_portfolio_risk :: real
  cfg_max_drawdown :: real
  stop_loss_pct :: real
  take_profit_pct :: real
  enable_trailing_stop :: bool
  trailing_stop_pct :: real
  enable_volatility_sizing :: bool
  enable_atr_stops :: bool
  atr_period :: real
  atr_multiplier :: real
  max_correlation :: real
  enable_drawdown_breaker :: bool
  drawdown_breaker_pct :: real
  recovery_mode_risk :: real

definition RiskConfig_default :: RiskConfig where
  "RiskConfig_default = \<lparr>max_position_size = 10000, max_portfolio_risk = 0.02,
     cfg_max_drawdown = 0.10, stop_loss_pct = 0.02, take_profit_pct = 0.06,
     enable_trailing_stop = True, trailing_stop_pct = 0.01, enable_volatility_sizing = True,
     enable_atr_stops = True, atr_period = 14, atr_multiplier = 2.0, max_correlation = 0.7,
     enable_drawdown_breaker = True, drawdown_breaker_pct = 0.05, recovery_mode_risk = 0.005\<rparr>"

section \<open>The SMA crossover strategy (automation\_outputs/sma\_strategy\_mt\_correction.cpp)\<close>

text \<open>
  The object state of \<open>SmaCrossStrategy\<close>: its own members and the two members of the base
  class \<open>Strategy\<close> it uses (\<open>trades_\<close>, \<open>portfolio_value_\<close>).
\<close>

record SmaCrossStrategy =
  sw' :: int
  lw' :: int
  fee' :: real
  symbol' :: string
  risk_config' :: RiskConfig
  closes' :: "real list"
  short_sma' :: real
  long_sma' :: real
  position' :: int
  current_position' :: Position
  cash' :: real
  fees_paid' :: real
  last_price' :: real
  last_date' :: int
  previous_value' :: real
  stop_loss_price' :: real
  take_profit_price' :: real
  trailing_stop_price' :: real
  peak_portfolio_value' :: real
  max_drawdown' :: real
  daily_returns' :: "real list"
  final_sharpe_ratio' :: real
  final_max_drawdown' :: real
  final_total_return' :: real
  trades' :: "Trade list"
  portfolio_value' :: real

text \<open>
  \<open>n < static_cast<size_t>(k)\<close> for a vector size \<open>n\<close> and an \<open>int\<close> \<open>k\<close>: a negative \<open>k\<close>
  wraps to a value above every vector size.
\<close>

definition size_lt :: "nat \<Rightarrow> int \<Rightarrow> bool" where
  "size_lt n k = (k < 0 \<or> int n < k)"

text \<open>Conversion of a \<open>double\<close> to an integer type truncates towards zero.\<close>

definition trunc_int :: "real \<Rightarrow> int" where
  "trunc_int x = (if 0 \<le> x then \<lfloor>x\<rfloor> else \<lceil>x\<rceil>)"

text \<open>The constructor, with the member initialisers of the class and of \<open>Strategy\<close>.\<close>

definition make_sma_strategy :: "int \<Rightarrow> int \<Rightarrow> real \<Rightarrow> string \<Rightarrow> SmaCrossStrategy" where
  "make_sma_strategy short_win long_win fee symbol =
     (let sw = (if short_win < 1 then 1 else short_win);
          lw = (if long_win < sw then sw else long_win)
      in \<lparr>sw' = sw, lw' = lw, fee' = fee, symbol' = symbol,
          risk_config' = RiskConfig_default\<lparr>max_portfolio_risk := 0.02, stop_loss_pct := 0.02,
            take_profit_pct := 0.06, cfg_max_drawdown := 0.10, enable_volatility_sizing := True,
            enable_atr_stops := True, atr_period := 14, atr_multiplier := 2.0,
            enable_drawdown_breaker := True, drawdown_breaker_pct := 0.05,
            recovery_mode_risk := 0.005\<rparr>,
          closes' = [], short_sma' = 0, long_sma' = 0, position' = 0,
          current_position' = Position_default, cash' = 0, fees_paid' = 0, last_price' = 0,
          last_date' = 0, previous_value' = 0, stop_loss_price' = 0, take_profit_price' = 0,
          trailing_stop_price' = 0, peak_portfolio_value' = 0, max_drawdown' = 0,
          daily_returns' = [], final_sharpe_ratio' = 0, final_max_drawdown' = 0,
          final_total_return' = 0, trades' = [], portfolio_value' = 100000\<rparr>)"

definition on_start :: "SmaCrossStrategy \<Rightarrow> SmaCrossStrategy" where
  "on_start s = s\<lparr>closes' := [],
     current_position' := Position_default\<lparr>pos_symbol := symbol' s\<rparr>,
     portfolio_value' := 100000, cash' := 100000, fees_paid' := 0,
     peak_portfolio_value' := 100000, max_drawdown' := 0, previous_value' := 100000,
     last_price' := 0, last_date' := 0, trades' := [], daily_returns' := [],
     short_sma' := 0, long_sma' := 0, position' := 0, stop_loss_price' := 0,
     take_profit_price' := 0, trailing_stop_price' := 0\<rparr>"

subsection \<open>Trade statistics\<close>

definition calculate_win_rate :: "SmaCrossStrategy \<Rightarrow> real" where
  "calculate_win_rate s =
     (let completed_trades = length (filter (\<lambda>t. trade_type t = EXIT) (trades' s));
          winning_trades =
            length (filter (\<lambda>t. trade_type t = EXIT \<and> trade_pnl t > 0) (trades' s))
      in if completed_trades = 0 then 0 else real winning_trades / real completed_trades)"

definition calculate_avg_win :: "SmaCrossStrategy \<Rightarrow> real" where
  "calculate_avg_win s =
     (let wins = filter (\<lambda>t. trade_type t = EXIT \<and> trade_pnl t > 0) (trades' s);
          total_wins = sum_list (map trade_pnl wins);
          win_count = length wins
      in if win_count > 0 then total_wins / real win_count else 0)"

definition calculate_avg_loss :: "SmaCrossStrategy \<Rightarrow> real" where
  "calculate_avg_loss s =
     (let losses = filter (\<lambda>t. trade_type t = EXIT \<and> trade_pnl t < 0) (trades' s);
          total_losses = sum_list (map trade_pnl losses);
          loss_count = length losses
      in if loss_count > 0 then total_losses / real loss_count else 0)"

definition get_trade_count :: "SmaCrossStrategy \<Rightarrow> int" where
  "get_trade_count s = int (length (filter (\<lambda>t. trade_type t = EXIT) (trades' s)))"

definition get_trades :: "SmaCrossStrategy \<Rightarrow> Trade list" where
  "get_trades s = trades' s"

definition get_portfolio_value :: "SmaCrossStrategy \<Rightarrow> real" where
  "get_portfolio_value s = portfolio_value' s"

subsection \<open>Position sizing\<close>

definition calculate_base_position_size :: "SmaCrossStrategy \<Rightarrow> real \<Rightarrow> real" where
  "calculate_base_position_size s portfolio_value =
     (let win_rate = calculate_win_rate s;
          avg_win = calculate_avg_win s;
          avg_loss = calculate_avg_loss s
      in if win_rate \<le> 0 \<or> avg_win \<le> 0 \<or> avg_loss \<ge> 0
         then portfolio_value * max_portfolio_risk (risk_config' s)
         else
           (let kelly_pct = win_rate - ((1 - win_rate) * avg_loss / avg_win);
                kelly_pct1 = min kelly_pct (max_portfolio_risk (risk_config' s));
                kelly_pct2 = max kelly_pct1 0.001
            in portfolio_value * kelly_pct2))"

text \<open>The successive relative changes \<open>(c[i] - c[i-1]) / c[i-1]\<close>, \<open>i = 1 .. size-1\<close>.\<close>

definition close_returns :: "real list \<Rightarrow> real list" where
  "close_returns cs = map (\<lambda>i. (cs ! i - cs ! (i - 1)) / cs ! (i - 1)) [1..<length cs]"

definition calculate_volatility_adjustment :: "SmaCrossStrategy \<Rightarrow> real" where
  "calculate_volatility_adjustment s =
     (if length (closes' s) < 20 then 1
      else
        (let returns = close_returns (closes' s)
         in if length returns < 2 then 1
            else
              (let mean_return = sum_list returns / real (length returns);
                   variance = sum_list (map (\<lambda>r. (r - mean_return) * (r - mean_return)) returns)
                                / real (length returns - 1);
                   volatility = sqrt variance;
                   target_volatility = 0.02;
                   current_volatility = max volatility 0.001;
                   adjustment = target_volatility / current_volatility
               in max 0.5 (min 2.0 adjustment))))"

definition calculate_position_size :: "SmaCrossStrategy \<Rightarrow> Bar \<Rightarrow> real \<Rightarrow> real" where
  "calculate_position_size s bar portfolio_value =
     (let base_position_size = calculate_base_position_size s portfolio_value
      in if \<not> enable_volatility_sizing (risk_config' s) then base_position_size
         else
           (let volatility_adjustment = calculate_volatility_adjustment s;
                adjusted_size = base_position_size * volatility_adjustment;
                min_size = portfolio_value * 0.001;
                max_size = portfolio_value * max_portfolio_risk (risk_config' s)
            in max min_size (min max_size adjusted_size)))"

subsection \<open>Stops\<close>

definition calculate_atr :: "SmaCrossStrategy \<Rightarrow> int \<Rightarrow> real" where
  "calculate_atr s period =
     (if size_lt (length (closes' s)) (period + 1) then 0
      else
        (let cs = closes' s;
             true_ranges = map (\<lambda>i. \<bar>cs ! i - cs ! (i - 1)\<bar>) [1..<length cs]
         in if size_lt (length true_ranges) period then 0
            else
              (let start_idx = int (length true_ranges) - period;
                   atr_sum = sum_list (map (\<lambda>i. true_ranges ! i)
                                         [nat start_idx..<length true_ranges])
               in atr_sum / real_of_int period)))"

definition calculate_atr_stop_loss :: "SmaCrossStrategy \<Rightarrow> Bar \<Rightarrow> real \<Rightarrow> real" where
  "calculate_atr_stop_loss s bar entry_price =
     (if \<not> enable_atr_stops (risk_config' s)
         \<or> length (closes' s) < nat (trunc_int (atr_period (risk_config' s)))
      then entry_price * (1 - stop_loss_pct (risk_config' s))
      else
        (let atr = calculate_atr s (trunc_int (atr_period (risk_config' s)))
         in entry_price - (atr * atr_multiplier (risk_config' s))))"

definition calculate_atr_take_profit :: "SmaCrossStrategy \<Rightarrow> Bar \<Rightarrow> real \<Rightarrow> real" where
  "calculate_atr_take_profit s bar entry_price =
     (if \<not> enable_atr_stops (risk_config' s)
         \<or> length (closes' s) < nat (trunc_int (atr_period (risk_config' s)))
      then entry_price * (1 + take_profit_pct (risk_config' s))
      else
        (let atr = calculate_atr s (trunc_int (atr_period (risk_config' s)));
             risk_amount = atr * atr_multiplier (risk_config' s);
             reward_amount = risk_amount * 3
         in entry_price + reward_amount))"

definition calculate_stop_loss :: "SmaCrossStrategy \<Rightarrow> Bar \<Rightarrow> real \<Rightarrow> real" where
  "calculate_stop_loss s bar entry_price = entry_price * (1 - stop_loss_pct (risk_config' s))"

definition calculate_take_profit :: "SmaCrossStrategy \<Rightarrow> Bar \<Rightarrow> real \<Rightarrow> real" where
  "calculate_take_profit s bar entry_price =
     entry_price * (1 + take_profit_pct (risk_config' s))"

definition update_trailing_stop :: "SmaCrossStrategy \<Rightarrow> real \<Rightarrow> SmaCrossStrategy" where
  "update_trailing_stop s price =
     (if pos_quantity (current_position' s) > 0 then
        (let new_trailing_stop = price * (1 - trailing_stop_pct (risk_config' s))
         in if new_trailing_stop > trailing_stop_price' s
            then s\<lparr>trailing_stop_price' := new_trailing_stop\<rparr> else s)
      else if pos_quantity (current_position' s) < 0 then
        (let new_trailing_stop = price * (1 + trailing_stop_pct (risk_config' s))
         in if trailing_stop_price' s = 0 \<or> new_trailing_stop < trailing_stop_price' s
            then s\<lparr>trailing_stop_price' := new_trailing_stop\<rparr> else s)
      else s)"

text \<open>
  \<open>should_exit_position\<close> returns its verdict and the object, whose trailing stop it may
  have ratcheted.
\<close>

definition should_exit_position ::
  "SmaCrossStrategy \<Rightarrow> Bar \<Rightarrow> Position \<Rightarrow> bool \<times> SmaCrossStrategy" where
  "should_exit_position s bar position =
     (let price = bar_close bar in
      if pos_quantity position > 0 then
        (if stop_loss_price' s > 0 \<and> price \<le> stop_loss_price' s then (True, s)
         else if take_profit_price' s > 0 \<and> price \<ge> take_profit_price' s then (True, s)
         else if enable_trailing_stop (risk_config' s) \<and> trailing_stop_price' s > 0 then
           (if price \<le> trailing_stop_price' s then (True, s)
            else (False, update_trailing_stop s price))
         else (False, s))
      else if pos_quantity position < 0 then
        (if stop_loss_price' s > 0 \<and> price \<ge> stop_loss_price' s then (True, s)
         else if take_profit_price' s > 0 \<and> price \<le> take_profit_price' s then (True, s)
         else if enable_trailing_stop (risk_config' s) \<and> trailing_stop_price' s > 0 then
           (if price \<ge> trailing_stop_price' s then (True, s)
            else (False, update_trailing_stop s price))
         else (False, s))
      else (False, s))"

subsection \<open>Signal\<close>

definition calculate_smas :: "SmaCrossStrategy \<Rightarrow> SmaCrossStrategy" where
  "calculate_smas s =
     (let cs = closes' s;
          size = length cs;
          s1 = (if \<not> size_lt size (sw' s)
                then s\<lparr>short_sma' :=
                        sum_list (map (\<lambda>i. cs ! (size - 1 - i)) [0..<nat (sw' s)])
                          / real_of_int (sw' s)\<rparr>
                else s)
      in if \<not> size_lt size (lw' s)
         then s1\<lparr>long_sma' :=
                  sum_list (map (\<lambda>i. cs ! (size - 1 - i)) [0..<nat (lw' s)])
                    / real_of_int (lw' s)\<rparr>
         else s1)"

definition generate_signal :: "SmaCrossStrategy \<Rightarrow> int" where
  "generate_signal s =
     (if short_sma' s = 0 \<or> long_sma' s = 0 then 0
      else if short_sma' s > long_sma' s then 1
      else if short_sma' s < long_sma' s then -1
      else 0)"

subsection \<open>Position bookkeeping\<close>

definition calculate_pnl :: "SmaCrossStrategy \<Rightarrow> real \<Rightarrow> real" where
  "calculate_pnl s price =
     (if pos_quantity (current_position' s) = 0 then 0
      else pos_quantity (current_position' s) * (price - avg_entry_price (current_position' s)))"

definition update_position_value :: "SmaCrossStrategy \<Rightarrow> real \<Rightarrow> SmaCrossStrategy" where
  "update_position_value s price =
     (if pos_quantity (current_position' s) = 0 then s\<lparr>portfolio_value' := cash' s\<rparr>
      else
        (let s1 = s\<lparr>current_position' := (current_position' s)\<lparr>current_price := price\<rparr>\<rparr>;
             s2 = s1\<lparr>current_position' :=
                       (current_position' s1)\<lparr>unrealized_pnl := calculate_pnl s1 price\<rparr>\<rparr>
         in s2\<lparr>portfolio_value' := cash' s2 + pos_quantity (current_position' s2) * price\<rparr>))"

definition open_position :: "SmaCrossStrategy \<Rightarrow> int \<Rightarrow> real \<Rightarrow> int \<Rightarrow> SmaCrossStrategy" where
  "open_position s date price direction =
     (if price \<le> 0 then s
      else
        (let position_size = calculate_position_size s Bar_default (portfolio_value' s)
         in if position_size \<le> 0 then s
            else
              (let quantity = position_size / price;
                   notional = quantity * price;
                   entry_trade = Trade_default\<lparr>trade_date := date,
                     trade_side := (if direction > 0 then BUY else SELL),
                     trade_type := ENTRY, trade_price := price, trade_quantity := quantity,
                     trade_symbol := symbol' s\<rparr>;
                   s1 = s\<lparr>trades' := trades' s @ [entry_trade]\<rparr>;
                   s2 = s1\<lparr>current_position' := (current_position' s1)\<lparr>
                          pos_symbol := symbol' s1, avg_entry_price := price,
                          current_price := price, unrealized_pnl := 0,
                          pos_quantity := (if direction > 0 then quantity else - quantity)\<rparr>\<rparr>;
                   fee_amount = fee' s2 * notional;
                   s3 = (if direction > 0
                         then s2\<lparr>cash' := cash' s2 - (notional + fee_amount),
                                stop_loss_price' := calculate_stop_loss s2 Bar_default price,
                                take_profit_price' := calculate_take_profit s2 Bar_default price,
                                trailing_stop_price' :=
                                  price * (1 - trailing_stop_pct (risk_config' s2))\<rparr>
                         else s2\<lparr>cash' := cash' s2 + (notional - fee_amount),
                                stop_loss_price' := price * (1 + stop_loss_pct (risk_config' s2)),
                                take_profit_price' :=
                                  price * (1 - take_profit_pct (risk_config' s2)),
                                trailing_stop_price' :=
                                  price * (1 + trailing_stop_pct (risk_config' s2))\<rparr>);
                   s4 = s3\<lparr>fees_paid' := fees_paid' s3 + fee_amount\<rparr>
               in update_position_value s4 price)))"

definition close_position :: "SmaCrossStrategy \<Rightarrow> int \<Rightarrow> real \<Rightarrow> SmaCrossStrategy" where
  "close_position s date price =
     (if pos_quantity (current_position' s) = 0 \<or> price \<le> 0
      then s\<lparr>portfolio_value' := cash' s\<rparr>
      else
        (let quantity = pos_quantity (current_position' s);
             abs_quantity = \<bar>quantity\<bar>;
             entry_value = abs_quantity * avg_entry_price (current_position' s);
             exit_value = abs_quantity * price;
             pnl = quantity * (price - avg_entry_price (current_position' s));
             total_fees = fee' s * (entry_value + exit_value);
             net_pnl = pnl - total_fees;
             exit_fee = fee' s * exit_value;
             s1 = (if quantity > 0 then s\<lparr>cash' := cash' s + (exit_value - exit_fee)\<rparr>
                   else s\<lparr>cash' := cash' s - (exit_value + exit_fee)\<rparr>);
             s2 = s1\<lparr>fees_paid' := fees_paid' s1 + exit_fee\<rparr>;
             exit_trade = Trade_default\<lparr>trade_date := date,
               trade_side := (if quantity > 0 then SELL else BUY), trade_type := EXIT,
               trade_price := price, trade_quantity := abs_quantity, trade_pnl := net_pnl,
               trade_symbol := symbol' s\<rparr>;
             s3 = s2\<lparr>trades' := trades' s2 @ [exit_trade]\<rparr>;
             s4 = s3\<lparr>current_position' := (current_position' s3)\<lparr>pos_quantity := 0,
                    avg_entry_price := 0, current_price := 0, unrealized_pnl := 0\<rparr>,
                  stop_loss_price' := 0, take_profit_price' := 0, trailing_stop_price' := 0\<rparr>
         in s4\<lparr>portfolio_value' := cash' s4\<rparr>))"

definition execute_trading_logic :: "SmaCrossStrategy \<Rightarrow> Bar \<Rightarrow> int \<Rightarrow> SmaCrossStrategy" where
  "execute_trading_logic s bar signal =
     (let price = bar_close bar;
          (exit_now, s1) =
            (if pos_quantity (current_position' s) \<noteq> 0
             then should_exit_position s bar (current_position' s) else (False, s))
      in if exit_now then close_position s1 (bar_date bar) price
         else
           (let s4 =
                  (if signal \<noteq> position' s1 then
                     (let s2 = (if pos_quantity (current_position' s1) \<noteq> 0
                                then close_position s1 (bar_date bar) price else s1);
                          s3 = (if signal \<noteq> 0
                                then open_position s2 (bar_date bar) price signal else s2)
                      in s3\<lparr>position' := signal\<rparr>)
                   else s1)
            in update_position_value s4 price))"

subsection \<open>Performance tracking\<close>

definition update_performance_metrics :: "SmaCrossStrategy \<Rightarrow> SmaCrossStrategy" where
  "update_performance_metrics s =
     (let s1 = (if portfolio_value' s > peak_portfolio_value' s
                then s\<lparr>peak_portfolio_value' := portfolio_value' s\<rparr> else s);
          s2 = (if peak_portfolio_value' s1 > 0 then
                  (let current_drawdown =
                         (peak_portfolio_value' s1 - portfolio_value' s1)
                           / peak_portfolio_value' s1
                   in if current_drawdown > max_drawdown' s1
                      then s1\<lparr>max_drawdown' := current_drawdown\<rparr> else s1)
                else s1);
          s3 = (if previous_value' s2 > 0 then
                  (let daily_return =
                         (portfolio_value' s2 - previous_value' s2) / previous_value' s2
                   in s2\<lparr>daily_returns' := daily_returns' s2 @ [daily_return]\<rparr>)
                else s2)
      in s3\<lparr>previous_value' := portfolio_value' s3\<rparr>)"

definition get_sharpe_ratio :: "SmaCrossStrategy \<Rightarrow> real" where
  "get_sharpe_ratio s =
     (let rs = daily_returns' s in
      if length rs < 2 then 0
      else
        (let mean_return = sum_list rs / real (length rs);
             variance = sum_list (map (\<lambda>r. (r - mean_return) * (r - mean_return)) rs)
                          / real (length rs - 1);
             std_dev = sqrt variance
         in if std_dev = 0 then 0
            else
              (let risk_free_rate = 0.02;
                   annualized_return = mean_return * 252
               in (annualized_return - risk_free_rate) / (std_dev * sqrt 252))))"

definition get_max_drawdown :: "SmaCrossStrategy \<Rightarrow> real" where
  "get_max_drawdown s = max_drawdown' s"

definition get_total_return :: "SmaCrossStrategy \<Rightarrow> real" where
  "get_total_return s =
     (if portfolio_value' s \<le> 0 then -1 else (portfolio_value' s - 100000) / 100000)"

definition calculate_final_metrics :: "SmaCrossStrategy \<Rightarrow> SmaCrossStrategy" where
  "calculate_final_metrics s =
     s\<lparr>final_sharpe_ratio' := get_sharpe_ratio s, final_max_drawdown' := get_max_drawdown s,
       final_total_return' := get_total_return s\<rparr>"

subsection \<open>Lifecycle\<close>

definition on_bar :: "SmaCrossStrategy \<Rightarrow> Bar \<Rightarrow> SmaCrossStrategy" where
  "on_bar s b =
     (let price = bar_close b;
          s1 = s\<lparr>closes' := closes' s @ [price]\<rparr>
      in if size_lt (length (closes' s1)) (lw' s1) then update_position_value s1 price
         else
           (let s2 = calculate_smas s1;
                signal = generate_signal s2;
                s3 = execute_trading_logic s2 b signal;
                s4 = s3\<lparr>last_price' := price, last_date' := bar_date b\<rparr>
            in update_performance_metrics s4))"

definition on_finish :: "SmaCrossStrategy \<Rightarrow> SmaCrossStrategy" where
  "on_finish s =
     (let s1 = (if pos_quantity (current_position' s) \<noteq> 0 then
                  (let exit_price = (if last_price' s > 0 then last_price' s
                                     else avg_entry_price (current_position' s));
                       exit_date = (if last_date' s \<noteq> 0 then last_date' s else 0)
                   in close_position s exit_date exit_price)
                else s);
          s2 = s1\<lparr>portfolio_value' := cash' s1\<rparr>
      in calculate_final_metrics s2)"

text \<open>A simulation run of the strategy: \<open>on_start\<close>, then \<open>on_bar\<close> for each bar in order.\<close>

definition run_bars :: "SmaCrossStrategy \<Rightarrow> Bar list \<Rightarrow> SmaCrossStrategy" where
  "run_bars s bars = foldl on_bar (on_start s) bars"

section \<open>The strategy tester (framework/strategy\_tester.h, strategy\_tester.cpp)\<close>

record StrategyTestConfig =
  config_strategy_name :: string
  config_parameters :: "real list"
  config_symbol :: string
  initial_capital :: real
  max_bars :: int
  enable_risk_management :: bool
  config_enable_volatility_sizing :: bool
  config_enable_atr_stops :: bool

record StrategyMetrics =
  strategy_name :: string
  parameters :: "real list"
  symbol :: string
  total_return :: real
  sharpe_ratio :: real
  max_drawdown :: real
  win_rate :: real
  profit_factor :: real
  avg_trade :: real
  total_trades :: int
  calmar_ratio :: real
  sortino_ratio :: real
  var_95 :: real
  expected_shortfall :: real
  avg_hold_period :: real
  max_adverse_excursion :: real
  max_favorable_excursion :: real
  composite_score :: real
  market_data :: "Bar list"

definition StrategyMetrics_default :: StrategyMetrics where
  "StrategyMetrics_default = \<lparr>strategy_name = [], parameters = [], symbol = [],
     total_return = 0, sharpe_ratio = 0, max_drawdown = 0, win_rate = 0, profit_factor = 0,
     avg_trade = 0, total_trades = 0, calmar_ratio = 0, sortino_ratio = 0, var_95 = 0,
     expected_shortfall = 0, avg_hold_period = 0, max_adverse_excursion = 0,
     max_favorable_excursion = 0, composite_score = 0, market_data = []\<rparr>"

definition calculate_composite_score :: "StrategyMetrics \<Rightarrow> StrategyMetrics" where
  "calculate_composite_score m =
     (let sharpe_score = min (sharpe_ratio m / 2) 1;
          drawdown_score = max 0 (1 - max_drawdown m);
          return_score = min (total_return m / 0.5) 1;
          trade_score = min (real_of_int (total_trades m) / 50) 1
      in m\<lparr>composite_score := (sharpe_score * 0.4) + (drawdown_score * 0.3)
                                 + (return_score * 0.2) + (trade_score * 0.1)\<rparr>)"

subsection \<open>Data integrity validation\<close>

text \<open>
  The exceptions of the program: a \<open>std::runtime_error\<close> with its message, and the
  \<open>std::invalid_argument\<close> and \<open>std::out_of_range\<close> of the string conversions with the
  name of the conversion.
\<close>

datatype exn = Runtime_Error string | Invalid_Argument string | Out_Of_Range string

definition validate_chronological_order :: "Bar list \<Rightarrow> exn + unit" where
  "validate_chronological_order data =
     (if length data < 2 then Inr ()
      else
        (let violation_indices =
               filter (\<lambda>i. bar_date (data ! i) \<le> bar_date (data ! (i - 1))) [1..<length data];
             violations = length violation_indices
         in if violations = 0 then Inr ()
            else Inl (Runtime_Error
                   ''Data is NOT in chronological order! Lookahead bias possible.'')))"

text \<open>The two counters of \<open>validate_data_integrity\<close> are its result: issues found, date gaps.\<close>

definition validate_data_integrity :: "Bar list \<Rightarrow> exn + nat \<times> nat" where
  "validate_data_integrity data =
     (if data = [] then Inl (Runtime_Error ''Data integrity validation failed: No data provided'')
      else
        (let missing_dates = length (filter (\<lambda>b. bar_date b = 0) data);
             non_positive =
               length (filter (\<lambda>b. bar_open b \<le> 0 \<or> bar_high b \<le> 0 \<or> bar_low b \<le> 0
                                      \<or> bar_close b \<le> 0) data);
             max_reasonable_price = 100000000;
             too_large =
               length (filter (\<lambda>b. bar_open b > max_reasonable_price
                                      \<or> bar_high b > max_reasonable_price
                                      \<or> bar_low b > max_reasonable_price
                                      \<or> bar_close b > max_reasonable_price) data);
             issues_found = missing_dates + non_positive + too_large;
             gap_count =
               length (filter (\<lambda>i. bar_date (data ! i) - bar_date (data ! (i - 1)) > 5)
                         [1..<length data])
         in Inr (issues_found, gap_count)))"

text \<open>\<open>validate_ohlc_relationships\<close> only counts: the number of violations is its result.\<close>

definition ohlc_violations :: "Bar \<Rightarrow> nat" where
  "ohlc_violations bar =
     (if bar_high bar < bar_open bar \<or> bar_high bar < bar_low bar \<or> bar_high bar < bar_close bar
      then 1 else 0)
     + (if bar_low bar > bar_open bar \<or> bar_low bar > bar_high bar \<or> bar_low bar > bar_close bar
        then 1 else 0)
     + (let max_change = max (\<bar>bar_open bar - bar_close bar\<bar> / bar_open bar)
                             ((bar_high bar - bar_low bar) / bar_low bar)
        in if max_change > 0.8 then 1 else 0)"

definition validate_ohlc_relationships :: "Bar list \<Rightarrow> exn + nat" where
  "validate_ohlc_relationships data = Inr (sum_list (map ohlc_violations data))"

subsection \<open>Metric helpers\<close>

definition calculate_sharpe_ratio :: "real list \<Rightarrow> real" where
  "calculate_sharpe_ratio returns =
     (if length returns < 2 then 0
      else
        (let mean_return = sum_list returns / real (length returns);
             variance = sum_list (map (\<lambda>r. (r - mean_return) * (r - mean_return)) returns)
                          / real (length returns - 1);
             std_dev = sqrt variance
         in if std_dev = 0 then 0
            else
              (let risk_free_rate = 0.02;
                   annualized_return = mean_return * 252
               in (annualized_return - risk_free_rate) / (std_dev * sqrt 252))))"

text \<open>The loop of \<open>calculate_max_drawdown\<close> over \<open>portfolio_values[1..]\<close>, on (peak, max\_dd).\<close>

fun max_drawdown_loop :: "real \<Rightarrow> real \<Rightarrow> real list \<Rightarrow> real" where
  "max_drawdown_loop peak max_dd [] = max_dd"
| "max_drawdown_loop peak max_dd (v # vs) =
     (if v > peak then max_drawdown_loop v max_dd vs
      else
        (let dd = (peak - v) / peak
         in max_drawdown_loop peak (if dd > max_dd then dd else max_dd) vs))"

definition calculate_max_drawdown :: "real list \<Rightarrow> real" where
  "calculate_max_drawdown portfolio_values =
     (if length portfolio_values < 2 then 0
      else max_drawdown_loop (portfolio_values ! 0) 0 (tl portfolio_values))"

definition calculate_var :: "real list \<Rightarrow> real \<Rightarrow> real" where
  "calculate_var returns confidence =
     (if returns = [] then 0
      else
        (let sorted_returns = sort returns;
             index0 = nat (trunc_int ((1 - confidence) * real (length sorted_returns)));
             index = (if index0 \<ge> length sorted_returns then length sorted_returns - 1
                      else index0)
         in - (sorted_returns ! index)))"

definition calculate_expected_shortfall :: "real list \<Rightarrow> real \<Rightarrow> real" where
  "calculate_expected_shortfall returns confidence =
     (if returns = [] then 0
      else
        (let var_threshold = calculate_var returns confidence;
             tail = filter (\<lambda>r. - r \<ge> var_threshold) returns;
             sum_losses = sum_list (map (\<lambda>r. - r) tail);
             count_losses = length tail
         in if count_losses > 0 then sum_losses / real count_losses else 0))"

definition calculate_sortino_ratio :: "real list \<Rightarrow> real" where
  "calculate_sortino_ratio returns =
     (if length returns < 2 then 0
      else
        (let mean_return = sum_list returns / real (length returns);
             downside = filter (\<lambda>r. r < 0) returns;
             downside_variance = sum_list (map (\<lambda>r. r * r) downside);
             downside_count = length downside
         in if downside_count = 0 \<or> downside_variance = 0 then 0
            else
              (let downside_std_dev = sqrt (downside_variance / real downside_count);
                   risk_free_rate = 0.02;
                   annualized_return = mean_return * 252
               in (annualized_return - risk_free_rate) / (downside_std_dev * sqrt 252))))"

subsection \<open>The strategy interface and the factory (framework/strategy\_factory.cpp)\<close>

text \<open>
  The virtual member functions of \<open>Strategy\<close> that the tester calls, as a table of functions
  on the object type \<open>'o\<close>.
\<close>

record 'o Strategy =
  v_on_start :: "'o \<Rightarrow> 'o"
  v_on_bar :: "'o \<Rightarrow> Bar \<Rightarrow> 'o"
  v_on_finish :: "'o \<Rightarrow> 'o"
  v_get_portfolio_value :: "'o \<Rightarrow> real"
  v_get_trade_count :: "'o \<Rightarrow> int"
  v_get_trades :: "'o \<Rightarrow> Trade list"

definition SmaCrossStrategy_vtable :: "SmaCrossStrategy Strategy" where
  "SmaCrossStrategy_vtable = \<lparr>v_on_start = on_start, v_on_bar = on_bar,
     v_on_finish = on_finish, v_get_portfolio_value = get_portfolio_value,
     v_get_trade_count = get_trade_count, v_get_trades = get_trades\<rparr>"

text \<open>
  \<open>StrategyFactory::create_strategy\<close>. The three \<open>make_..._strategy\<close> functions live in the
  translation units of the strategies and are parameters here; \<open>None\<close> is the null pointer.
\<close>

definition create_strategy ::
  "(int \<Rightarrow> int \<Rightarrow> real \<Rightarrow> string \<Rightarrow> 'o option)
   \<Rightarrow> (int \<Rightarrow> real \<Rightarrow> real \<Rightarrow> int \<Rightarrow> real \<Rightarrow> string \<Rightarrow> 'o option)
   \<Rightarrow> (int \<Rightarrow> int \<Rightarrow> int \<Rightarrow> real \<Rightarrow> real \<Rightarrow> real \<Rightarrow> string \<Rightarrow> 'o option)
   \<Rightarrow> string \<Rightarrow> real list \<Rightarrow> string \<Rightarrow> 'o option" where
  "create_strategy mk_sma mk_rsi mk_macd name ps sy =
     (if name = ''SMA'' \<and> length ps \<ge> 3
      then mk_sma (trunc_int (ps ! 0)) (trunc_int (ps ! 1)) (ps ! 2) sy
      else if name = ''RSI'' \<and> length ps \<ge> 5
      then mk_rsi (trunc_int (ps ! 0)) (ps ! 1) (ps ! 2) (trunc_int (ps ! 3)) (ps ! 4) sy
      else if name = ''MACD'' \<and> length ps \<ge> 6
      then mk_macd (trunc_int (ps ! 0)) (trunc_int (ps ! 1)) (trunc_int (ps ! 2))
             (ps ! 3) (ps ! 4) (ps ! 5) sy
      else None)"

definition mk_sma_strategy :: "int \<Rightarrow> int \<Rightarrow> real \<Rightarrow> string \<Rightarrow> SmaCrossStrategy option" where
  "mk_sma_strategy short_win long_win fee sy =
     Some (make_sma_strategy short_win long_win fee sy)"

subsection \<open>Simulation and test of one configuration\<close>

text \<open>
  The calls the tester makes on the factory and on the strategy object are recorded, in
  order, next to the results.
\<close>

datatype call = Call_create_strategy | Call_on_start | Call_on_bar Bar | Call_on_finish

fun simulation_loop ::
  "'o Strategy \<Rightarrow> Bar list \<Rightarrow> 'o \<times> real list \<times> call list \<Rightarrow> 'o \<times> real list \<times> call list" where
  "simulation_loop vt [] st = st"
| "simulation_loop vt (bar # bars) (strategy, portfolio_values, calls) =
     (let strategy1 = v_on_bar vt strategy bar;
          current_portfolio_value = v_get_portfolio_value vt strategy1
      in simulation_loop vt bars
           (strategy1, portfolio_values @ [current_portfolio_value], calls @ [Call_on_bar bar]))"

definition run_strategy_simulation ::
  "'o Strategy \<Rightarrow> 'o \<Rightarrow> Bar list \<Rightarrow> real list \<times> 'o \<times> call list" where
  "run_strategy_simulation vt strategy data =
     (let (strategy1, portfolio_values, calls) =
            simulation_loop vt data (v_on_start vt strategy, [], [Call_on_start]);
          strategy2 = v_on_finish vt strategy1;
          final_value = v_get_portfolio_value vt strategy2;
          portfolio_values1 =
            (if portfolio_values = [] \<or> \<bar>last portfolio_values - final_value\<bar> > 1 / 10 ^ 6
             then portfolio_values @ [final_value] else portfolio_values)
      in (portfolio_values1, strategy2, calls @ [Call_on_finish]))"

text \<open>The returns \<open>(v[i] - v[i-1]) / v[i-1]\<close> of the tester, skipping a zero \<open>v[i-1]\<close>.\<close>

definition portfolio_returns :: "real list \<Rightarrow> real list" where
  "portfolio_returns vs =
     map (\<lambda>i. (vs ! i - vs ! (i - 1)) / vs ! (i - 1))
       (filter (\<lambda>i. vs ! (i - 1) \<noteq> 0) [1..<length vs])"

text \<open>The block of \<open>test_strategy\<close> that recounts the trades of the strategy.\<close>

definition trade_metrics :: "Trade list \<Rightarrow> StrategyMetrics \<Rightarrow> StrategyMetrics" where
  "trade_metrics trades metrics =
     (if trades = [] then metrics
      else
        (let exits = filter (\<lambda>t. trade_type t = EXIT) trades;
             total_wins = sum_list (map trade_pnl (filter (\<lambda>t. trade_pnl t > 0) exits));
             total_losses =
               sum_list (map (\<lambda>t. \<bar>trade_pnl t\<bar>)
                          (filter (\<lambda>t. \<not> trade_pnl t > 0 \<and> trade_pnl t < 0) exits));
             winning_trades = length (filter (\<lambda>t. trade_pnl t > 0) exits);
             completed_trades = length exits
         in if completed_trades > 0 then
              (let metrics1 = metrics\<lparr>total_trades := int completed_trades,
                     win_rate := real winning_trades / real completed_trades,
                     avg_trade := (total_wins - total_losses) / real completed_trades\<rparr>
               in if total_losses > 0
                  then metrics1\<lparr>profit_factor := total_wins / total_losses\<rparr>
                  else if total_wins > 0 then metrics1\<lparr>profit_factor := 1000\<rparr>
                  else metrics1)
            else metrics))"

definition test_strategy ::
  "'o Strategy
   \<Rightarrow> (int \<Rightarrow> int \<Rightarrow> real \<Rightarrow> string \<Rightarrow> 'o option)
   \<Rightarrow> (int \<Rightarrow> real \<Rightarrow> real \<Rightarrow> int \<Rightarrow> real \<Rightarrow> string \<Rightarrow> 'o option)
   \<Rightarrow> (int \<Rightarrow> int \<Rightarrow> int \<Rightarrow> real \<Rightarrow> real \<Rightarrow> real \<Rightarrow> string \<Rightarrow> 'o option)
   \<Rightarrow> StrategyTestConfig \<Rightarrow> Bar list \<Rightarrow> StrategyMetrics \<times> call list" where
  "test_strategy vt mk_sma mk_rsi mk_macd config data =
     (let metrics = StrategyMetrics_default\<lparr>strategy_name := config_strategy_name config,
            parameters := config_parameters config, symbol := config_symbol config\<rparr>
      in case validate_chronological_order data of
           Inl e \<Rightarrow> (metrics, [])
         | Inr _ \<Rightarrow>
        (case validate_data_integrity data of
           Inl e \<Rightarrow> (metrics, [])
         | Inr _ \<Rightarrow>
        (case validate_ohlc_relationships data of
           Inl e \<Rightarrow> (metrics, [])
         | Inr _ \<Rightarrow>
        (case create_strategy mk_sma mk_rsi mk_macd (config_strategy_name config)
                (config_parameters config) (config_symbol config) of
           None \<Rightarrow> (metrics, [Call_create_strategy])
         | Some strategy \<Rightarrow>
             (let (portfolio_values, strategy1, calls) =
                    run_strategy_simulation vt strategy data;
                  calls1 = Call_create_strategy # calls
              in if portfolio_values = [] then (metrics, calls1)
                 else
                   (let returns = portfolio_returns portfolio_values;
                        metrics1 =
                          (if returns \<noteq> [] then
                             metrics\<lparr>total_return :=
                                 (last portfolio_values - initial_capital config)
                                   / initial_capital config,
                               sharpe_ratio := calculate_sharpe_ratio returns,
                               max_drawdown := calculate_max_drawdown portfolio_values,
                               var_95 := calculate_var returns 0.95,
                               expected_shortfall := calculate_expected_shortfall returns 0.95\<rparr>
                           else metrics);
                        metrics2 = metrics1\<lparr>total_trades := v_get_trade_count vt strategy1\<rparr>;
                        metrics3 = trade_metrics (v_get_trades vt strategy1) metrics2;
                        metrics4 =
                          (if max_drawdown metrics3 > 0
                           then metrics3\<lparr>calmar_ratio :=
                                  total_return metrics3 / max_drawdown metrics3\<rparr>
                           else metrics3);
                        metrics5 = metrics4\<lparr>sortino_ratio := calculate_sortino_ratio returns\<rparr>;
                        metrics6 = calculate_composite_score metrics5
                    in (metrics6\<lparr>market_data := data\<rparr>, calls1)))))))"

section \<open>Text output and input of numbers (the C++ standard library)\<close>

text \<open>
  The registry and the CSV functions write numbers with \<open>operator<<\<close> and read them back
  with \<open>std::stod\<close> and \<open>std::stoi\<close>. Their behaviour on decimal text is part of the
  model: \<open>operator<<\<close> on an \<open>int\<close> prints its decimal digits; on a \<open>double\<close>, with the
  default flags of a stream, it prints like \<open>printf("%g")\<close> with precision 6.
\<close>

definition digit_chars :: string where
  "digit_chars = ''0123456789''"

definition digit_char :: "nat \<Rightarrow> char" where
  "digit_char d = digit_chars ! d"

definition is_digit :: "char \<Rightarrow> bool" where
  "is_digit c = (c \<in> set digit_chars)"

text \<open>The value of a digit: its index among the digits.\<close>

definition digit_val :: "char \<Rightarrow> nat" where
  "digit_val c = length (takeWhile (\<lambda>d. d \<noteq> c) digit_chars)"

fun digits_of :: "nat \<Rightarrow> string" where
  "digits_of n =
     (if n < 10 then [digit_char n] else digits_of (n div 10) @ [digit_char (n mod 10)])"

fun ndigits :: "nat \<Rightarrow> nat" where
  "ndigits n = (if n < 10 then 1 else 1 + ndigits (n div 10))"

definition put_int :: "int \<Rightarrow> string" where
  "put_int n = (if n < 0 then CHR ''-'' # digits_of (nat (- n)) else digits_of (nat n))"

definition pow10 :: "int \<Rightarrow> real" where
  "pow10 k = (if 0 \<le> k then 10 ^ nat k else 1 / 10 ^ nat (- k))"

text \<open>The decimal exponent \<open>e\<close> of a positive number \<open>a\<close>: \<open>10^e \<le> a < 10^(e+1)\<close>.\<close>

definition decimal_exponent :: "real \<Rightarrow> int" where
  "decimal_exponent a =
     (if 1 \<le> a then int (ndigits (nat \<lfloor>a\<rfloor>)) - 1
      else - int (ndigits (nat (\<lceil>1 / a\<rceil> - 1))))"

definition round_half_even :: "real \<Rightarrow> int" where
  "round_half_even r =
     (let f = \<lfloor>r\<rfloor>; d = r - of_int f
      in if d < 1 / 2 then f else if d > 1 / 2 then f + 1 else if even f then f else f + 1)"

text \<open>
  The six significant digits of a positive number and the exponent of its first digit,
  after rounding: \<open>a\<close> is printed as \<open>m * 10^(e-5)\<close> with \<open>100000 \<le> m \<le> 999999\<close>.
\<close>

definition significand6 :: "real \<Rightarrow> int \<times> int" where
  "significand6 a =
     (let e = decimal_exponent a;
          m = round_half_even (a * pow10 (5 - e))
      in if m \<ge> 1000000 then (100000, e + 1) else (m, e))"

definition strip_trailing_zeros :: "string \<Rightarrow> string" where
  "strip_trailing_zeros ds = rev (dropWhile (\<lambda>c. c = CHR ''0'') (rev ds))"

text \<open>Integer digits and fraction digits; \<open>%g\<close> drops trailing zeros and a bare point.\<close>

definition with_fraction :: "string \<Rightarrow> string \<Rightarrow> string" where
  "with_fraction ip fp =
     (let fp1 = strip_trailing_zeros fp in if fp1 = [] then ip else ip @ CHR ''.'' # fp1)"

definition exponent_digits :: "nat \<Rightarrow> string" where
  "exponent_digits n = (if n < 10 then [CHR ''0'', digit_char n] else digits_of n)"

definition put_double :: "real \<Rightarrow> string" where
  "put_double x =
     (if x = 0 then ''0''
      else
        (let (m, e) = significand6 \<bar>x\<bar>;
             ds = digits_of (nat m);
             body =
               (if - 4 \<le> e \<and> e < 6 then
                  (if 0 \<le> e then with_fraction (take (nat e + 1) ds) (drop (nat e + 1) ds)
                   else with_fraction ''0'' (replicate (nat (- e - 1)) (CHR ''0'') @ ds))
                else with_fraction (take 1 ds) (drop 1 ds)
                       @ CHR ''e'' # (if e < 0 then CHR ''-'' else CHR ''+'')
                           # exponent_digits (nat \<bar>e\<bar>))
         in if x < 0 then CHR ''-'' # body else body))"

definition is_space :: "char \<Rightarrow> bool" where
  "is_space c = (c \<in> set [CHR '' '', CHR 0x09, CHR 0x0A, CHR 0x0B, CHR 0x0C, CHR 0x0D])"

definition nat_of_digits :: "string \<Rightarrow> nat" where
  "nat_of_digits ds = foldl (\<lambda>a c. 10 * a + digit_val c) 0 ds"

text \<open>An optional sign in front of the rest of the text.\<close>

definition read_sign :: "string \<Rightarrow> bool \<times> string" where
  "read_sign s =
     (case s of
        [] \<Rightarrow> (False, [])
      | c # r \<Rightarrow> if c = CHR ''-'' then (True, r) else if c = CHR ''+'' then (False, r)
                 else (False, s))"

text \<open>The exponent part \<open>e[+-]digits\<close> at the head of a text, 0 when there is none.\<close>

definition read_exponent :: "string \<Rightarrow> int" where
  "read_exponent s =
     (case s of
        [] \<Rightarrow> 0
      | c # r \<Rightarrow>
          if c = CHR ''e'' \<or> c = CHR ''E'' then
            (let (neg, r1) = read_sign r;
                 ed = takeWhile is_digit r1
             in if ed = [] then 0
                else if neg then - int (nat_of_digits ed) else int (nat_of_digits ed))
          else 0)"

text \<open>
  A text that starts like an infinity, a NaN or a hexadecimal number: \<open>std::stod\<close> may
  read a value from it that has no counterpart in this model.
\<close>

definition special_number :: "string \<Rightarrow> bool" where
  "special_number s =
     (case s of
        [] \<Rightarrow> False
      | c # r \<Rightarrow> c \<in> set ''iInN''
                 \<or> (c = CHR ''0'' \<and> (case r of [] \<Rightarrow> False | x # _ \<Rightarrow> x \<in> set ''xX'')))"

text \<open>
  \<open>std::stod\<close>: white space, a sign, digits with an optional point, an optional exponent;
  what follows is ignored. No digits at all is \<open>std::invalid_argument\<close>; a value beyond
  the range of a \<open>double\<close> is \<open>std::out_of_range\<close>. A text that starts like a special
  number is reported as an invalid argument of its own kind.
\<close>

definition stod :: "string \<Rightarrow> exn + real" where
  "stod s =
     (let (neg, s2) = read_sign (dropWhile is_space s);
          ip = takeWhile is_digit s2;
          s3 = dropWhile is_digit s2;
          (fp, s4) = (case s3 of
                        [] \<Rightarrow> ([], [])
                      | c # r \<Rightarrow> if c = CHR ''.''
                                 then (takeWhile is_digit r, dropWhile is_digit r)
                                 else ([], s3))
      in if special_number s2 then Inl (Invalid_Argument ''stod: not a decimal number'')
         else if ip = [] \<and> fp = [] then Inl (Invalid_Argument ''stod'')
         else
           (let v = (real (nat_of_digits ip) + real (nat_of_digits fp) / 10 ^ length fp)
                      * pow10 (read_exponent s4)
            in if v \<ge> 2 ^ 1024 \<or> (0 < v \<and> v < 1 / 2 ^ 1022) then Inl (Out_Of_Range ''stod'')
               else Inr (if neg then - v else v)))"

text \<open>\<open>std::stoi\<close>: white space, a sign, decimal digits; the value must fit an \<open>int\<close>.\<close>

definition stoi :: "string \<Rightarrow> exn + int" where
  "stoi s =
     (let (neg, s2) = read_sign (dropWhile is_space s);
          ds = takeWhile is_digit s2
      in if ds = [] then Inl (Invalid_Argument ''stoi'')
         else
           (let v = (if neg then - int (nat_of_digits ds) else int (nat_of_digits ds))
            in if v < - (2 ^ 31) \<or> v > 2 ^ 31 - 1 then Inl (Out_Of_Range ''stoi'')
               else Inr v))"

text \<open>
  All the tokens that successive calls of \<open>std::getline(stream, token, delim)\<close> extract
  from a text until a call fails. A token ends at the delimiter or at the end of the text;
  a call at the end of the text extracts nothing and fails. The second argument is the
  token being read.
\<close>

fun getline_loop :: "char \<Rightarrow> string \<Rightarrow> string \<Rightarrow> string list" where
  "getline_loop delim token [] = (if token = [] then [] else [token])"
| "getline_loop delim token (c # cs) =
     (if c = delim then token # getline_loop delim [] cs
      else getline_loop delim (token @ [c]) cs)"

definition getline_all :: "char \<Rightarrow> string \<Rightarrow> string list" where
  "getline_all delim text = getline_loop delim [] text"

section \<open>CSV export and import (framework/strategy\_registry.cpp, StrategyManagement)\<close>

text \<open>The files of the program: their contents by name, and the names that can be written.\<close>

record file_system =
  files :: "string \<rightharpoonup> string"
  writable :: "string \<Rightarrow> bool"

definition newline :: char where
  "newline = CHR 0x0A"

definition csv_header_text :: string where
  "csv_header_text =
     ''Strategy,Total_Return,Sharpe_Ratio,Max_Drawdown,Win_Rate,Profit_Factor,Total_Trades,Composite_Score,Parameters''"

definition csv_header :: string where
  "csv_header = csv_header_text @ [newline]"

text \<open>The parameters of a row, with a semicolon between two of them.\<close>

fun join_parameters :: "real list \<Rightarrow> string" where
  "join_parameters [] = []"
| "join_parameters [p] = put_double p"
| "join_parameters (p # q # ps) = put_double p @ CHR '';'' # join_parameters (q # ps)"

definition csv_row_text :: "StrategyMetrics \<Rightarrow> string" where
  "csv_row_text strategy =
     strategy_name strategy @ CHR '','' # put_double (total_return strategy)
       @ CHR '','' # put_double (sharpe_ratio strategy)
       @ CHR '','' # put_double (max_drawdown strategy)
       @ CHR '','' # put_double (win_rate strategy)
       @ CHR '','' # put_double (profit_factor strategy)
       @ CHR '','' # put_int (total_trades strategy)
       @ CHR '','' # put_double (composite_score strategy)
       @ CHR '','' # join_parameters (parameters strategy)"

definition csv_row :: "StrategyMetrics \<Rightarrow> string" where
  "csv_row strategy = csv_row_text strategy @ [newline]"

definition export_strategies_to_csv ::
  "file_system \<Rightarrow> StrategyMetrics list \<Rightarrow> string \<Rightarrow> bool \<times> file_system" where
  "export_strategies_to_csv fs strategies filename =
     (if \<not> writable fs filename then (False, fs)
      else (True, fs\<lparr>files := (files fs)(filename \<mapsto>
                          csv_header @ concat (map csv_row strategies))\<rparr>))"

definition bind_exn :: "exn + 'a \<Rightarrow> ('a \<Rightarrow> exn + 'b) \<Rightarrow> exn + 'b" where
  "bind_exn r f = (case r of Inl e \<Rightarrow> Inl e | Inr v \<Rightarrow> f v)"

text \<open>
  \<open>if (std::getline(iss, token, ',')) metrics.field = conv(token);\<close> for the \<open>k\<close>-th call of
  \<open>getline\<close> on the line.
\<close>

definition read_field ::
  "string list \<Rightarrow> nat \<Rightarrow> (string \<Rightarrow> exn + 'a) \<Rightarrow> ('a \<Rightarrow> StrategyMetrics \<Rightarrow> StrategyMetrics)
   \<Rightarrow> StrategyMetrics \<Rightarrow> exn + StrategyMetrics" where
  "read_field tokens k conv store metrics =
     (if k < length tokens
      then bind_exn (conv (tokens ! k)) (\<lambda>v. Inr (store v metrics))
      else Inr metrics)"

fun read_parameters :: "string list \<Rightarrow> StrategyMetrics \<Rightarrow> exn + StrategyMetrics" where
  "read_parameters [] metrics = Inr metrics"
| "read_parameters (param # params) metrics =
     bind_exn (stod param)
       (\<lambda>v. read_parameters params (metrics\<lparr>parameters := parameters metrics @ [v]\<rparr>))"

definition read_csv_row :: "string \<Rightarrow> exn + StrategyMetrics" where
  "read_csv_row line =
     (let tokens = getline_all (CHR '','') line in
      bind_exn (read_field tokens 0 Inr (\<lambda>v m. m\<lparr>strategy_name := v\<rparr>) StrategyMetrics_default)
     (\<lambda>m. bind_exn (read_field tokens 1 stod (\<lambda>v m. m\<lparr>total_return := v\<rparr>) m)
     (\<lambda>m. bind_exn (read_field tokens 2 stod (\<lambda>v m. m\<lparr>sharpe_ratio := v\<rparr>) m)
     (\<lambda>m. bind_exn (read_field tokens 3 stod (\<lambda>v m. m\<lparr>max_drawdown := v\<rparr>) m)
     (\<lambda>m. bind_exn (read_field tokens 4 stod (\<lambda>v m. m\<lparr>win_rate := v\<rparr>) m)
     (\<lambda>m. bind_exn (read_field tokens 5 stod (\<lambda>v m. m\<lparr>profit_factor := v\<rparr>) m)
     (\<lambda>m. bind_exn (read_field tokens 6 stoi (\<lambda>v m. m\<lparr>total_trades := v\<rparr>) m)
     (\<lambda>m. bind_exn (read_field tokens 7 stod (\<lambda>v m. m\<lparr>composite_score := v\<rparr>) m)
     (\<lambda>m. if 8 < length tokens
            then read_parameters (getline_all (CHR '';'') (tokens ! 8)) m
            else Inr m)))))))))"

fun read_csv_rows :: "string list \<Rightarrow> exn + StrategyMetrics list" where
  "read_csv_rows [] = Inr []"
| "read_csv_rows (line # lines) =
     bind_exn (read_csv_row line)
       (\<lambda>metrics. bind_exn (read_csv_rows lines) (\<lambda>strategies. Inr (metrics # strategies)))"

definition import_strategies_from_csv :: "file_system \<Rightarrow> string \<Rightarrow> exn + StrategyMetrics list" where
  "import_strategies_from_csv fs filename =
     (case files fs filename of
        None \<Rightarrow> Inr []
      | Some text \<Rightarrow> read_csv_rows (drop 1 (getline_all newline text)))"

section \<open>The strategy registry (framework/strategy\_registry.h, strategy\_registry.cpp)\<close>

text \<open>
  The SQLite database of the registry, as far as \<open>save_strategy_result\<close> uses it: the
  tables \<open>strategies\<close> and \<open>parameter_regions\<close> with the columns of their
  \<open>CREATE TABLE\<close> statements, and the \<open>AUTOINCREMENT\<close> sequence of \<open>strategies\<close>. The
  database is taken to be healthy: every statement compiles, and a step fails only where
  a constraint forbids it. \<open>CURRENT_TIMESTAMP\<close> is an argument \<open>now\<close> of the functions.
\<close>

record strategies_row =
  row_id :: nat
  row_strategy_name :: string
  parameters_hash :: string
  parameters_json :: string
  row_total_return :: real
  row_sharpe_ratio :: real
  row_max_drawdown :: real
  row_win_rate :: real
  row_profit_factor :: real
  row_total_trades :: int
  row_composite_score :: real
  tested_at :: nat

record parameter_regions_row =
  region_id :: string
  exploration_count :: int
  best_score :: real
  last_tested :: nat

record database =
  strategies :: "strategies_row list"
  strategies_sequence :: nat
  parameter_regions :: "parameter_regions_row list"

datatype sqlite_rc = SQLITE_DONE | SQLITE_CONSTRAINT

text \<open>
  \<open>INSERT OR REPLACE INTO strategies (...) VALUES (...)\<close>: \<open>parameters_hash\<close> is \<open>UNIQUE\<close>,
  so the rows with the hash of the new row are deleted before it is inserted under a new id.
\<close>

definition insert_or_replace_strategy ::
  "nat \<Rightarrow> database \<Rightarrow> string \<Rightarrow> string \<Rightarrow> string \<Rightarrow> StrategyMetrics \<Rightarrow> sqlite_rc \<times> database" where
  "insert_or_replace_strategy now db name hash json metrics =
     (let new_row = \<lparr>row_id = strategies_sequence db + 1, row_strategy_name = name,
            parameters_hash = hash, parameters_json = json,
            row_total_return = total_return metrics, row_sharpe_ratio = sharpe_ratio metrics,
            row_max_drawdown = max_drawdown metrics, row_win_rate = win_rate metrics,
            row_profit_factor = profit_factor metrics,
            row_total_trades = total_trades metrics,
            row_composite_score = composite_score metrics, tested_at = now\<rparr>
      in (SQLITE_DONE,
          db\<lparr>strategies := filter (\<lambda>r. parameters_hash r \<noteq> hash) (strategies db) @ [new_row],
             strategies_sequence := strategies_sequence db + 1\<rparr>))"

text \<open>
  \<open>UPDATE parameter_regions SET exploration_count = exploration_count + 1,
  best_score = MAX(best_score, ?), last_tested = CURRENT_TIMESTAMP WHERE region_id = ?\<close>.
  The step of an \<open>UPDATE\<close> is done whether or not a row matches.
\<close>

definition update_parameter_region ::
  "nat \<Rightarrow> database \<Rightarrow> real \<Rightarrow> string \<Rightarrow> sqlite_rc \<times> database" where
  "update_parameter_region now db score rid =
     (SQLITE_DONE,
      db\<lparr>parameter_regions :=
           map (\<lambda>r. if region_id r = rid
                     then r\<lparr>exploration_count := exploration_count r + 1,
                            best_score := max (best_score r) score, last_tested := now\<rparr>
                     else r)
             (parameter_regions db)\<rparr>)"

text \<open>
  \<open>INSERT INTO parameter_regions (region_id, exploration_count, best_score)
  VALUES (?, 1, ?)\<close>: \<open>region_id\<close> is the primary key.
\<close>

definition insert_parameter_region ::
  "nat \<Rightarrow> database \<Rightarrow> string \<Rightarrow> real \<Rightarrow> sqlite_rc \<times> database" where
  "insert_parameter_region now db rid score =
     (if rid \<in> set (map region_id (parameter_regions db)) then (SQLITE_CONSTRAINT, db)
      else (SQLITE_DONE,
            db\<lparr>parameter_regions := parameter_regions db
                   @ [\<lparr>region_id = rid, exploration_count = 1, best_score = score,
                        last_tested = now\<rparr>]\<rparr>))"

text \<open>The registry object: its path and its database handle, \<open>None\<close> for the null handle.\<close>

record StrategyRegistry =
  db_path' :: string
  db' :: "database option"

text \<open>\<open>operator<<\<close> on a \<open>double\<close> after \<open>std::fixed\<close> and \<open>std::setprecision(p)\<close>.\<close>

definition put_fixed :: "nat \<Rightarrow> real \<Rightarrow> string" where
  "put_fixed p x =
     (let n = nat (round_half_even (\<bar>x\<bar> * 10 ^ p));
          ip = digits_of (n div 10 ^ p);
          fp = digits_of (n mod 10 ^ p);
          body = ip @ CHR ''.'' # replicate (p - length fp) (CHR ''0'') @ fp
      in if x < 0 then CHR ''-'' # body else body)"

definition generate_strategy_signature :: "real list \<Rightarrow> string" where
  "generate_strategy_signature ps = concat (map (\<lambda>param. put_fixed 8 param @ ''|'') ps)"

text \<open>\<open>std::round\<close>: to the nearest integer, halfway cases away from zero.\<close>

definition std_round :: "real \<Rightarrow> real" where
  "std_round x = (if 0 \<le> x then of_int \<lfloor>x + 1 / 2\<rfloor> else - of_int \<lfloor>- x + 1 / 2\<rfloor>)"

definition generate_parameter_region_id :: "real list \<Rightarrow> string" where
  "generate_parameter_region_id ps =
     concat (map (\<lambda>param. put_double (std_round (param * 10) / 10) @ ''|'') ps)"

fun join_json :: "real list \<Rightarrow> string" where
  "join_json [] = []"
| "join_json [p] = put_double p"
| "join_json (p # q # ps) = put_double p @ CHR '','' # join_json (q # ps)"

definition is_strategy_tested :: "StrategyRegistry \<Rightarrow> string \<Rightarrow> bool" where
  "is_strategy_tested reg strategy_signature =
     (case db' reg of
        None \<Rightarrow> False
      | Some db \<Rightarrow>
          length (filter (\<lambda>r. parameters_hash r = strategy_signature) (strategies db)) > 0)"

definition update_exploration_region ::
  "nat \<Rightarrow> StrategyRegistry \<Rightarrow> string \<Rightarrow> real \<Rightarrow> bool \<times> StrategyRegistry" where
  "update_exploration_region now reg rid score =
     (case db' reg of
        None \<Rightarrow> (False, reg)
      | Some db \<Rightarrow>
          (let (rc, db1) = update_parameter_region now db score rid;
               updated = (rc = SQLITE_DONE)
           in if \<not> updated then
                (let (rc1, db2) = insert_parameter_region now db1 rid score
                 in (rc1 = SQLITE_DONE, reg\<lparr>db' := Some db2\<rparr>))
              else (updated, reg\<lparr>db' := Some db1\<rparr>)))"

definition save_strategy_result ::
  "nat \<Rightarrow> StrategyRegistry \<Rightarrow> StrategyMetrics \<Rightarrow> bool \<times> StrategyRegistry" where
  "save_strategy_result now reg metrics =
     (case db' reg of
        None \<Rightarrow> (False, reg)
      | Some db \<Rightarrow>
          (let json = ''['' @ join_json (parameters metrics) @ '']'';
               signature = generate_strategy_signature (parameters metrics);
               (rc, db1) = insert_or_replace_strategy now db (strategy_name metrics) signature
                             json metrics;
               success = (rc = SQLITE_DONE);
               reg1 = reg\<lparr>db' := Some db1\<rparr>
           in if success then
                (let rid = generate_parameter_region_id (parameters metrics);
                     (updated, reg2) =
                       update_exploration_region now reg1 rid (composite_score metrics)
                 in (success, reg2))
              else (success, reg1)))"

text \<open>
  \<open>sqlite3_column_int\<close> reads a stored integer as a C \<open>int\<close>: the low 32 bits of the value,
  as a signed number.
\<close>

definition sqlite3_column_int :: "int \<Rightarrow> int" where
  "sqlite3_column_int v = (v + 2 ^ 31) mod 2 ^ 32 - 2 ^ 31"

definition get_exploration_count :: "StrategyRegistry \<Rightarrow> string \<Rightarrow> int" where
  "get_exploration_count reg rid =
     (case db' reg of
        None \<Rightarrow> 0
      | Some db \<Rightarrow>
          (case find (\<lambda>r. region_id r = rid) (parameter_regions db) of
             None \<Rightarrow> 0
           | Some r \<Rightarrow> sqlite3_column_int (exploration_count r)))"

section \<open>Auxiliary notions of the verification\<close>

text \<open>The mark-to-market equation of the portfolio at a price.\<close>

definition marked_to_market :: "SmaCrossStrategy \<Rightarrow> real \<Rightarrow> bool" where
  "marked_to_market s price =
     (portfolio_value' s = cash' s + pos_quantity (current_position' s) * price)"

text \<open>An open position has a positive entry price.\<close>

definition entry_price_positive :: "SmaCrossStrategy \<Rightarrow> bool" where
  "entry_price_positive s =
     (if pos_quantity (current_position' s) = 0 then True
      else avg_entry_price (current_position' s) > 0)"

text \<open>A sample feed: three bars whose four prices agree, with rising closes.\<close>

definition flat_bar :: "int \<Rightarrow> real \<Rightarrow> Bar" where
  "flat_bar d c = \<lparr>bar_date = d, bar_open = c, bar_high = c, bar_low = c, bar_close = c,
     bar_volume = 0\<rparr>"

definition bar_100 :: Bar where
  "bar_100 = flat_bar 20240102 100"

definition bar_110 :: Bar where
  "bar_110 = flat_bar 20240103 110"

definition bar_120 :: Bar where
  "bar_120 = flat_bar 20240104 120"

definition rising_bars :: "Bar list" where
  "rising_bars = [bar_100, bar_110, bar_120]"

definition sma_1_2 :: SmaCrossStrategy where
  "sma_1_2 = make_sma_strategy 1 2 0 ''DEMO''"

text \<open>A strategy object with one winning and one losing completed trade.\<close>

definition one_win_one_loss :: SmaCrossStrategy where
  "one_win_one_loss =
     (on_start sma_1_2)\<lparr>trades' :=
        [Trade_default\<lparr>trade_type := EXIT, trade_pnl := 100\<rparr>,
         Trade_default\<lparr>trade_type := EXIT, trade_pnl := - 300\<rparr>]\<rparr>"

text \<open>
  The base position size in the words of the specification: the fallback when the trade
  history is insufficient, else the Kelly fraction
  \<open>winRate - (1 - winRate) * |avgLoss| / avgWin\<close> clamped to \<open>[0.001, maxPortfolioRisk]\<close>.
\<close>

definition base_position_size_spec :: "real \<Rightarrow> real \<Rightarrow> real \<Rightarrow> real \<Rightarrow> real \<Rightarrow> real" where
  "base_position_size_spec pv max_risk wr aw al =
     (if wr \<le> 0 \<or> aw \<le> 0 \<or> al \<ge> 0 then pv * max_risk
      else pv * max 0.001 (min max_risk (wr - (1 - wr) * \<bar>al\<bar> / aw)))"

text \<open>A strategy object that has seen exactly 14 closes, the ATR period.\<close>

definition fourteen_closes :: SmaCrossStrategy where
  "fourteen_closes =
     (on_start sma_1_2)\<lparr>closes' :=
        [100, 101, 102, 103, 104, 105, 106, 107, 108, 109, 110, 111, 112, 113]\<rparr>"

text \<open>A test configuration of the SMA strategy with windows 1 and 2 and no fee.\<close>

definition sma_config :: StrategyTestConfig where
  "sma_config = \<lparr>config_strategy_name = ''SMA'', config_parameters = [1, 2, 0],
     config_symbol = ''DEMO'', initial_capital = 100000, max_bars = 1000,
     enable_risk_management = True, config_enable_volatility_sizing = True,
     config_enable_atr_stops = True\<rparr>"

definition no_rsi :: "int \<Rightarrow> real \<Rightarrow> real \<Rightarrow> int \<Rightarrow> real \<Rightarrow> string \<Rightarrow> SmaCrossStrategy option" where
  "no_rsi p ob os c f sy = None"

definition no_macd ::
  "int \<Rightarrow> int \<Rightarrow> int \<Rightarrow> real \<Rightarrow> real \<Rightarrow> real \<Rightarrow> string \<Rightarrow> SmaCrossStrategy option" where
  "no_macd fp sp sg ob os f sy = None"

text \<open>
  A strategy that does not override \<open>get_trade_count\<close> of the \<open>Strategy\<close> interface, whose
  default returns 0, and is the SMA strategy in everything else.
\<close>

definition default_count_vtable :: "SmaCrossStrategy Strategy" where
  "default_count_vtable = SmaCrossStrategy_vtable\<lparr>v_get_trade_count := (\<lambda>s. 0)\<rparr>"

text \<open>
  The premises of the validator property in the words of the specification: strictly
  increasing dates, and valid OHLC values of a bar.
\<close>

definition strictly_increasing_dates :: "Bar list \<Rightarrow> bool" where
  "strictly_increasing_dates data =
     list_all (\<lambda>i. bar_date (data ! i) > bar_date (data ! (i - 1))) [1..<length data]"

definition valid_ohlc :: "Bar \<Rightarrow> bool" where
  "valid_ohlc bar =
     (bar_open bar > 0 \<and> bar_high bar > 0 \<and> bar_low bar > 0 \<and> bar_close bar > 0
      \<and> bar_high bar \<ge> max (max (bar_open bar) (bar_close bar)) (bar_low bar)
      \<and> bar_low bar \<le> min (min (bar_open bar) (bar_close bar)) (bar_high bar))"

text \<open>No pass of the validator, run as \<open>test_strategy\<close> runs them, raises.\<close>

definition validation_raises_nothing :: "Bar list \<Rightarrow> bool" where
  "validation_raises_nothing data =
     (\<not> isl (validate_chronological_order data) \<and> \<not> isl (validate_data_integrity data)
      \<and> \<not> isl (validate_ohlc_relationships data))"

text \<open>The characters of a printed number.\<close>

definition number_char :: "char \<Rightarrow> bool" where
  "number_char c = (is_digit c \<or> c \<in> set ''-+.e'')"

text \<open>
  The fields of a \<open>StrategyMetrics\<close> that the CSV file holds as floating-point text, and the
  record as far as the file holds it.
\<close>

definition double_fields :: "StrategyMetrics \<Rightarrow> real list" where
  "double_fields m =
     [total_return m, sharpe_ratio m, max_drawdown m, win_rate m, profit_factor m,
      composite_score m] @ parameters m"

definition reread :: "(real \<Rightarrow> real) \<Rightarrow> StrategyMetrics \<Rightarrow> StrategyMetrics" where
  "reread r m =
     StrategyMetrics_default\<lparr>strategy_name := strategy_name m,
       total_return := r (total_return m), sharpe_ratio := r (sharpe_ratio m),
       max_drawdown := r (max_drawdown m), win_rate := r (win_rate m),
       profit_factor := r (profit_factor m), total_trades := total_trades m,
       composite_score := r (composite_score m), parameters := map r (parameters m)\<rparr>"

definition exported_fields :: "StrategyMetrics \<Rightarrow> StrategyMetrics" where
  "exported_fields m = reread (\<lambda>x. x) m"

text \<open>
  A file system without files; a result whose fee parameter is \<open>2^-13\<close>, and the same
  result with the fee as the file holds it; a result whose numbers have few digits.
\<close>

definition no_files :: file_system where
  "no_files = \<lparr>files = Map.empty, writable = (\<lambda>name. True)\<rparr>"

definition fine_fee_result :: StrategyMetrics where
  "fine_fee_result =
     StrategyMetrics_default\<lparr>strategy_name := ''SMA'', parameters := [10, 40, 1 / 8192],
       total_return := 0.25, total_trades := 7\<rparr>"

definition exact_result :: StrategyMetrics where
  "exact_result =
     StrategyMetrics_default\<lparr>strategy_name := ''SMA'', parameters := [10, 40, 1 / 128],
       total_return := 0.25, total_trades := 7, composite_score := 0.5\<rparr>"

definition coarse_fee_result :: StrategyMetrics where
  "coarse_fee_result =
     StrategyMetrics_default\<lparr>strategy_name := ''SMA'', parameters := [10, 40, 0.00012207],
       total_return := 0.25, total_trades := 7\<rparr>"

text \<open>The rows of the two tables of a registry that a signature or a region selects.\<close>

definition strategy_rows :: "StrategyRegistry \<Rightarrow> string \<Rightarrow> strategies_row list" where
  "strategy_rows reg sg =
     (case db' reg of
        None \<Rightarrow> []
      | Some db \<Rightarrow> filter (\<lambda>r. parameters_hash r = sg) (strategies db))"

definition region_row :: "StrategyRegistry \<Rightarrow> string \<Rightarrow> parameter_regions_row option" where
  "region_row reg rid =
     (case db' reg of
        None \<Rightarrow> None
      | Some db \<Rightarrow> find (\<lambda>r. region_id r = rid) (parameter_regions db))"

definition region_rows :: "StrategyRegistry \<Rightarrow> parameter_regions_row list" where
  "region_rows reg = (case db' reg of None \<Rightarrow> [] | Some db \<Rightarrow> parameter_regions db)"

text \<open>
  A registry as \<open>initialize\<close> leaves it on a new database file, with both tables empty,
  and a result with the parameters (10, 40, 0.0005).
\<close>

definition fresh_registry :: StrategyRegistry where
  "fresh_registry =
     \<lparr>db_path' = ''strategy_registry.db'',
      db' = Some \<lparr>strategies = [], strategies_sequence = 0, parameter_regions = []\<rparr>\<rparr>"

definition sma_result :: StrategyMetrics where
  "sma_result =
     StrategyMetrics_default\<lparr>strategy_name := ''SMA'', parameters := [10, 40, 0.0005],
       total_return := 0.25, total_trades := 7, composite_score := 0.5\<rparr>"

section \<open>Verification\<close>

subsection \<open>Running maximum drawdown\<close>

lemma upm_max_drawdown: "max_drawdown' s \<le> max_drawdown' (update_performance_metrics s)"
  by (simp add: update_performance_metrics_def Let_def)

lemma upv_max_drawdown: "max_drawdown' (update_position_value s p) = max_drawdown' s"
  by (simp add: update_position_value_def Let_def)

lemma close_position_max_drawdown: "max_drawdown' (close_position s d p) = max_drawdown' s"
  by (simp add: close_position_def Let_def)

lemma open_position_max_drawdown: "max_drawdown' (open_position s d p dir) = max_drawdown' s"
  by (simp add: open_position_def Let_def upv_max_drawdown)

lemma uts_max_drawdown: "max_drawdown' (update_trailing_stop s p) = max_drawdown' s"
  by (simp add: update_trailing_stop_def Let_def)

lemma sep_max_drawdown:
  "should_exit_position s b pos = (e, s1) \<Longrightarrow> max_drawdown' s1 = max_drawdown' s"
  by (auto simp add: should_exit_position_def Let_def uts_max_drawdown split: if_splits)

lemma etl_max_drawdown: "max_drawdown' (execute_trading_logic s b sg) = max_drawdown' s"
proof -
  obtain e s1 where e:
    "(if pos_quantity (current_position' s) \<noteq> 0
      then should_exit_position s b (current_position' s) else (False, s)) = (e, s1)"
    by (cases "(if pos_quantity (current_position' s) \<noteq> 0
                then should_exit_position s b (current_position' s) else (False, s))") auto
  then have s1: "max_drawdown' s1 = max_drawdown' s"
    by (auto dest: sep_max_drawdown split: if_splits)
  show ?thesis
    unfolding execute_trading_logic_def Let_def e prod.case
    by (simp add: s1 close_position_max_drawdown open_position_max_drawdown upv_max_drawdown)
qed

lemma smas_max_drawdown: "max_drawdown' (calculate_smas s) = max_drawdown' s"
  by (simp add: calculate_smas_def Let_def)

lemma on_bar_max_drawdown: "max_drawdown' s \<le> max_drawdown' (on_bar s b)"
proof (cases "size_lt (length (closes' s @ [bar_close b])) (lw' s)")
  case True
  then show ?thesis by (simp add: on_bar_def Let_def upv_max_drawdown)
next
  case False
  define s3 where "s3 =
    (execute_trading_logic (calculate_smas (s\<lparr>closes' := closes' s @ [bar_close b]\<rparr>)) b
       (generate_signal (calculate_smas (s\<lparr>closes' := closes' s @ [bar_close b]\<rparr>))))
      \<lparr>last_price' := bar_close b, last_date' := bar_date b\<rparr>"
  have "max_drawdown' s3 = max_drawdown' s"
    by (simp add: s3_def etl_max_drawdown smas_max_drawdown)
  moreover have "on_bar s b = update_performance_metrics s3"
    using False by (simp add: on_bar_def Let_def s3_def)
  ultimately show ?thesis using upm_max_drawdown [of s3] by simp
qed

lemma foldl_on_bar_max_drawdown: "max_drawdown' s \<le> max_drawdown' (foldl on_bar s bars)"
proof (induction bars arbitrary: s)
  case Nil
  show ?case by simp
next
  case (Cons b bars)
  have "max_drawdown' s \<le> max_drawdown' (on_bar s b)" by (rule on_bar_max_drawdown)
  also have "\<dots> \<le> max_drawdown' (foldl on_bar (on_bar s b) bars)" by (rule Cons.IH)
  finally show ?case by simp
qed

text \<open>
  Claim C8. The running maximum drawdown never decreases: \<open>update_performance_metrics\<close>
  leaves \<open>max_drawdown_\<close> at least as large as it was, so does the processing of a bar by
  \<open>on_bar\<close>, and so does every continuation of a run by further bars.
\<close>

theorem max_drawdown_non_decreasing:
  "max_drawdown' s \<le> max_drawdown' (update_performance_metrics s)
   \<and> max_drawdown' s \<le> max_drawdown' (on_bar s b)
   \<and> max_drawdown' (foldl on_bar s bars) \<le> max_drawdown' (foldl on_bar s (bars @ bars1))"
  using upm_max_drawdown [of s] on_bar_max_drawdown [of s b]
    foldl_on_bar_max_drawdown [of "foldl on_bar s bars" bars1]
  by simp

subsection \<open>Portfolio value, cash and position\<close>

lemma upv_marked: "marked_to_market (update_position_value s p) p"
  by (simp add: marked_to_market_def update_position_value_def Let_def)

lemma close_position_flat:
  "0 < p \<Longrightarrow> pos_quantity (current_position' (close_position s d p)) = 0"
  by (simp add: close_position_def Let_def)

lemma close_position_value:
  "portfolio_value' (close_position s d p) = cash' (close_position s d p)"
  by (simp add: close_position_def Let_def)

lemma close_position_marked: "0 < p \<Longrightarrow> marked_to_market (close_position s d p) q"
  by (simp add: marked_to_market_def close_position_flat close_position_value)

lemma etl_marked:
  assumes "0 < bar_close b"
  shows "marked_to_market (execute_trading_logic s b sg) (bar_close b)"
proof -
  obtain e s1 where e:
    "(if pos_quantity (current_position' s) \<noteq> 0
      then should_exit_position s b (current_position' s) else (False, s)) = (e, s1)"
    by (cases "(if pos_quantity (current_position' s) \<noteq> 0
                then should_exit_position s b (current_position' s) else (False, s))") auto
  show ?thesis
    unfolding execute_trading_logic_def Let_def e prod.case
    using assms by (simp add: close_position_marked upv_marked)
qed

lemma upm_marked: "marked_to_market (update_performance_metrics s) p = marked_to_market s p"
  by (simp add: marked_to_market_def update_performance_metrics_def Let_def)

lemma on_bar_unfold:
  assumes "\<not> size_lt (length (closes' s @ [bar_close b])) (lw' s)"
  shows "on_bar s b =
    update_performance_metrics
      ((execute_trading_logic (calculate_smas (s\<lparr>closes' := closes' s @ [bar_close b]\<rparr>)) b
          (generate_signal (calculate_smas (s\<lparr>closes' := closes' s @ [bar_close b]\<rparr>))))
        \<lparr>last_price' := bar_close b, last_date' := bar_date b\<rparr>)"
  using assms by (simp add: on_bar_def Let_def)

lemma on_bar_marked:
  assumes "0 < bar_close b"
  shows "marked_to_market (on_bar s b) (bar_close b)"
proof (cases "size_lt (length (closes' s @ [bar_close b])) (lw' s)")
  case True
  then show ?thesis by (simp add: on_bar_def Let_def upv_marked)
next
  case False
  define s2 where "s2 = calculate_smas (s\<lparr>closes' := closes' s @ [bar_close b]\<rparr>)"
  define s3 where "s3 = execute_trading_logic s2 b (generate_signal s2)"
  have "marked_to_market s3 (bar_close b)"
    unfolding s3_def using assms by (rule etl_marked)
  then have "marked_to_market (s3\<lparr>last_price' := bar_close b, last_date' := bar_date b\<rparr>)
               (bar_close b)"
    by (simp add: marked_to_market_def)
  then show ?thesis
    unfolding on_bar_unfold [OF False] s3_def s2_def by (simp add: upm_marked)
qed

lemma upv_epp: "entry_price_positive (update_position_value s p) = entry_price_positive s"
  by (simp add: entry_price_positive_def update_position_value_def Let_def)

lemma close_position_epp:
  "entry_price_positive s \<Longrightarrow> entry_price_positive (close_position s d p)"
  by (simp add: entry_price_positive_def close_position_def Let_def)

lemma open_position_epp:
  "entry_price_positive s \<Longrightarrow> entry_price_positive (open_position s d p dir)"
  by (simp add: open_position_def Let_def upv_epp) (simp add: entry_price_positive_def)

lemma uts_epp: "entry_price_positive (update_trailing_stop s p) = entry_price_positive s"
  by (simp add: entry_price_positive_def update_trailing_stop_def Let_def)

lemma sep_epp:
  "should_exit_position s b pos = (e, s1) \<Longrightarrow> entry_price_positive s1 = entry_price_positive s"
  by (auto simp add: should_exit_position_def Let_def uts_epp split: if_splits)

lemma etl_epp:
  assumes "entry_price_positive s"
  shows "entry_price_positive (execute_trading_logic s b sg)"
proof -
  obtain e s1 where e:
    "(if pos_quantity (current_position' s) \<noteq> 0
      then should_exit_position s b (current_position' s) else (False, s)) = (e, s1)"
    by (cases "(if pos_quantity (current_position' s) \<noteq> 0
                then should_exit_position s b (current_position' s) else (False, s))") auto
  then have s1: "entry_price_positive s1"
    using assms by (auto dest: sep_epp split: if_splits)
  have pos: "entry_price_positive (x\<lparr>position' := sg\<rparr>) = entry_price_positive x" for x
    by (simp add: entry_price_positive_def)
  show ?thesis
    unfolding execute_trading_logic_def Let_def e prod.case
    using s1 by (simp add: close_position_epp open_position_epp upv_epp pos)
qed

lemma smas_epp: "entry_price_positive (calculate_smas s) = entry_price_positive s"
  by (simp add: entry_price_positive_def calculate_smas_def Let_def)

lemma upm_epp: "entry_price_positive (update_performance_metrics s) = entry_price_positive s"
  by (simp add: entry_price_positive_def update_performance_metrics_def Let_def)

lemma on_bar_epp:
  assumes "entry_price_positive s"
  shows "entry_price_positive (on_bar s b)"
proof (cases "size_lt (length (closes' s @ [bar_close b])) (lw' s)")
  case True
  then show ?thesis using assms
    by (simp add: on_bar_def Let_def upv_epp) (simp add: entry_price_positive_def)
next
  case False
  define s2 where "s2 = calculate_smas (s\<lparr>closes' := closes' s @ [bar_close b]\<rparr>)"
  define s3 where "s3 = execute_trading_logic s2 b (generate_signal s2)"
  have "entry_price_positive (s\<lparr>closes' := closes' s @ [bar_close b]\<rparr>)"
    using assms by (simp add: entry_price_positive_def)
  then have "entry_price_positive s2" by (simp add: s2_def smas_epp)
  then have "entry_price_positive s3" unfolding s3_def by (rule etl_epp)
  then have "entry_price_positive (s3\<lparr>last_price' := bar_close b, last_date' := bar_date b\<rparr>)"
    by (simp add: entry_price_positive_def)
  then show ?thesis
    unfolding on_bar_unfold [OF False] s3_def s2_def by (simp add: upm_epp)
qed

lemma foldl_on_bar_epp:
  "entry_price_positive s \<Longrightarrow> entry_price_positive (foldl on_bar s bars)"
  by (induction bars arbitrary: s) (simp_all add: on_bar_epp)

lemma on_start_epp: "entry_price_positive (on_start s)"
  by (simp add: entry_price_positive_def on_start_def Position_default_def)

lemma on_finish_value: "portfolio_value' (on_finish s) = cash' (on_finish s)"
  by (simp add: on_finish_def calculate_final_metrics_def Let_def)

lemma on_finish_flat:
  assumes "entry_price_positive s"
  shows "pos_quantity (current_position' (on_finish s)) = 0"
proof (cases "pos_quantity (current_position' s) = 0")
  case True
  then show ?thesis by (simp add: on_finish_def calculate_final_metrics_def Let_def)
next
  case False
  then have "0 < (if last_price' s > 0 then last_price' s
                  else avg_entry_price (current_position' s))"
    using assms by (simp add: entry_price_positive_def)
  then show ?thesis
    using False
    by (simp add: on_finish_def calculate_final_metrics_def Let_def close_position_flat)
qed

lemma run_bars_snoc: "run_bars s (bars @ [b]) = on_bar (run_bars s bars) b"
  by (simp add: run_bars_def)

lemma run_bars_flat_after_finish:
  "pos_quantity (current_position' (on_finish (run_bars s bars))) = 0"
proof -
  have "entry_price_positive (run_bars s bars)"
    unfolding run_bars_def by (rule foldl_on_bar_epp) (rule on_start_epp)
  then show ?thesis by (rule on_finish_flat)
qed

text \<open>
  Claim C2. In a run of the SMA crossover strategy over bars with positive close prices,
  after each processed bar the portfolio value is the cash plus the position quantity
  times the close of that bar (the cash alone when the position is flat); after
  \<open>on_finish\<close> the position is flat and the portfolio value is the cash.
\<close>

theorem portfolio_value_is_cash_plus_position:
  assumes "\<forall>b \<in> set bars. 0 < bar_close b"
  shows "(\<forall>n. 0 < n \<and> n \<le> length bars \<longrightarrow>
            portfolio_value' (run_bars s (take n bars))
              = cash' (run_bars s (take n bars))
                + pos_quantity (current_position' (run_bars s (take n bars)))
                  * bar_close (bars ! (n - 1))
            \<and> (pos_quantity (current_position' (run_bars s (take n bars))) = 0 \<longrightarrow>
                 portfolio_value' (run_bars s (take n bars))
                   = cash' (run_bars s (take n bars))))
         \<and> pos_quantity (current_position' (on_finish (run_bars s bars))) = 0
         \<and> portfolio_value' (on_finish (run_bars s bars)) = cash' (on_finish (run_bars s bars))"
proof (intro conjI allI impI)
  fix n
  assume n: "0 < n \<and> n \<le> length bars"
  then have t: "take n bars = take (n - 1) bars @ [bars ! (n - 1)]"
    by (metis Suc_pred' less_eq_Suc_le take_Suc_conv_app_nth)
  have "n - 1 < length bars" using n by arith
  then have "bars ! (n - 1) \<in> set bars" by (rule nth_mem)
  then have "0 < bar_close (bars ! (n - 1))" using assms by blast
  then have "marked_to_market (run_bars s (take n bars)) (bar_close (bars ! (n - 1)))"
    unfolding t run_bars_snoc by (rule on_bar_marked)
  then show m: "portfolio_value' (run_bars s (take n bars))
              = cash' (run_bars s (take n bars))
                + pos_quantity (current_position' (run_bars s (take n bars)))
                  * bar_close (bars ! (n - 1))"
    by (simp add: marked_to_market_def)
  assume "pos_quantity (current_position' (run_bars s (take n bars))) = 0"
  then show "portfolio_value' (run_bars s (take n bars)) = cash' (run_bars s (take n bars))"
    using m by simp
next
  show "pos_quantity (current_position' (on_finish (run_bars s bars))) = 0"
    by (rule run_bars_flat_after_finish)
next
  show "portfolio_value' (on_finish (run_bars s bars)) = cash' (on_finish (run_bars s bars))"
    by (rule on_finish_value)
qed

subsection \<open>A sample run, evaluated\<close>

lemma upm_keeps:
  "closes' (update_performance_metrics s) = closes' s"
  "lw' (update_performance_metrics s) = lw' s"
  "sw' (update_performance_metrics s) = sw' s"
  "fee' (update_performance_metrics s) = fee' s"
  "symbol' (update_performance_metrics s) = symbol' s"
  "risk_config' (update_performance_metrics s) = risk_config' s"
  "current_position' (update_performance_metrics s) = current_position' s"
  "cash' (update_performance_metrics s) = cash' s"
  "trades' (update_performance_metrics s) = trades' s"
  "position' (update_performance_metrics s) = position' s"
  "portfolio_value' (update_performance_metrics s) = portfolio_value' s"
  "stop_loss_price' (update_performance_metrics s) = stop_loss_price' s"
  "take_profit_price' (update_performance_metrics s) = take_profit_price' s"
  by (simp_all add: update_performance_metrics_def Let_def)

lemma rising_bar_fields:
  "bar_close bar_100 = 100" "bar_date bar_100 = 20240102"
  "bar_close bar_110 = 110" "bar_date bar_110 = 20240103"
  "bar_close bar_120 = 120" "bar_date bar_120 = 20240104"
  by (simp_all add: bar_100_def bar_110_def bar_120_def flat_bar_def)

lemma rising_run_0:
  "closes' (run_bars sma_1_2 []) = []"
  "lw' (run_bars sma_1_2 []) = 2"
  "sw' (run_bars sma_1_2 []) = 1"
  "fee' (run_bars sma_1_2 []) = 0"
  "symbol' (run_bars sma_1_2 []) = ''DEMO''"
  "risk_config' (run_bars sma_1_2 []) = RiskConfig_default"
  "pos_quantity (current_position' (run_bars sma_1_2 [])) = 0"
  "cash' (run_bars sma_1_2 []) = 100000"
  "trades' (run_bars sma_1_2 []) = []"
  "position' (run_bars sma_1_2 []) = 0"
  "portfolio_value' (run_bars sma_1_2 []) = 100000"
  "stop_loss_price' (run_bars sma_1_2 []) = 0"
  "take_profit_price' (run_bars sma_1_2 []) = 0"
  by (simp_all add: run_bars_def sma_1_2_def on_start_def make_sma_strategy_def
      Position_default_def RiskConfig_default_def)

lemma rising_run_1:
  "closes' (run_bars sma_1_2 [bar_100]) = [100]"
  "lw' (run_bars sma_1_2 [bar_100]) = 2"
  "sw' (run_bars sma_1_2 [bar_100]) = 1"
  "fee' (run_bars sma_1_2 [bar_100]) = 0"
  "symbol' (run_bars sma_1_2 [bar_100]) = ''DEMO''"
  "risk_config' (run_bars sma_1_2 [bar_100]) = RiskConfig_default"
  "pos_quantity (current_position' (run_bars sma_1_2 [bar_100])) = 0"
  "cash' (run_bars sma_1_2 [bar_100]) = 100000"
  "trades' (run_bars sma_1_2 [bar_100]) = []"
  "position' (run_bars sma_1_2 [bar_100]) = 0"
  "portfolio_value' (run_bars sma_1_2 [bar_100]) = 100000"
  "stop_loss_price' (run_bars sma_1_2 [bar_100]) = 0"
  "take_profit_price' (run_bars sma_1_2 [bar_100]) = 0"
proof -
  have e: "run_bars sma_1_2 [bar_100] = on_bar (run_bars sma_1_2 []) bar_100"
    by (simp add: run_bars_def)
  show
    "closes' (run_bars sma_1_2 [bar_100]) = [100]"
    "lw' (run_bars sma_1_2 [bar_100]) = 2"
    "sw' (run_bars sma_1_2 [bar_100]) = 1"
    "fee' (run_bars sma_1_2 [bar_100]) = 0"
    "symbol' (run_bars sma_1_2 [bar_100]) = ''DEMO''"
    "risk_config' (run_bars sma_1_2 [bar_100]) = RiskConfig_default"
    "pos_quantity (current_position' (run_bars sma_1_2 [bar_100])) = 0"
    "cash' (run_bars sma_1_2 [bar_100]) = 100000"
    "trades' (run_bars sma_1_2 [bar_100]) = []"
    "position' (run_bars sma_1_2 [bar_100]) = 0"
    "portfolio_value' (run_bars sma_1_2 [bar_100]) = 100000"
    "stop_loss_price' (run_bars sma_1_2 [bar_100]) = 0"
    "take_profit_price' (run_bars sma_1_2 [bar_100]) = 0"
    unfolding e
    by (simp_all add: rising_run_0 on_bar_def Let_def size_lt_def rising_bar_fields
        update_position_value_def)
qed

lemma rising_run_2:
  "closes' (run_bars sma_1_2 [bar_100, bar_110]) = [100, 110]"
  "lw' (run_bars sma_1_2 [bar_100, bar_110]) = 2"
  "sw' (run_bars sma_1_2 [bar_100, bar_110]) = 1"
  "fee' (run_bars sma_1_2 [bar_100, bar_110]) = 0"
  "symbol' (run_bars sma_1_2 [bar_100, bar_110]) = ''DEMO''"
  "risk_config' (run_bars sma_1_2 [bar_100, bar_110]) = RiskConfig_default"
  "pos_quantity (current_position' (run_bars sma_1_2 [bar_100, bar_110])) = 200 / 11"
  "avg_entry_price (current_position' (run_bars sma_1_2 [bar_100, bar_110])) = 110"
  "cash' (run_bars sma_1_2 [bar_100, bar_110]) = 98000"
  "trades' (run_bars sma_1_2 [bar_100, bar_110]) = [\<lparr>trade_date = 20240103, trade_side = BUY, trade_type = ENTRY, trade_price = 110, trade_quantity = 200 / 11, trade_pnl = 0, trade_symbol = ''DEMO''\<rparr>]"
  "position' (run_bars sma_1_2 [bar_100, bar_110]) = 1"
  "portfolio_value' (run_bars sma_1_2 [bar_100, bar_110]) = 100000"
  "stop_loss_price' (run_bars sma_1_2 [bar_100, bar_110]) = 1078 / 10"
  "take_profit_price' (run_bars sma_1_2 [bar_100, bar_110]) = 1166 / 10"
proof -
  define A where "A = (run_bars sma_1_2 [bar_100])\<lparr>closes' := closes' (run_bars sma_1_2 [bar_100]) @ [110]\<rparr>"
  have A:
    "closes' (A) = [100, 110]"
    "lw' (A) = 2"
    "sw' (A) = 1"
    "fee' (A) = 0"
    "symbol' (A) = ''DEMO''"
    "risk_config' (A) = RiskConfig_default"
    "pos_quantity (current_position' (A)) = 0"
    "cash' (A) = 100000"
    "trades' (A) = []"
    "position' (A) = 0"
    "portfolio_value' (A) = 100000"
    "stop_loss_price' (A) = 0"
    "take_profit_price' (A) = 0"
    by (simp_all add: A_def rising_run_1)
  define B where "B = calculate_smas A"
  have B:
    "closes' (B) = [100, 110]"
    "lw' (B) = 2"
    "sw' (B) = 1"
    "fee' (B) = 0"
    "symbol' (B) = ''DEMO''"
    "risk_config' (B) = RiskConfig_default"
    "pos_quantity (current_position' (B)) = 0"
    "cash' (B) = 100000"
    "trades' (B) = []"
    "position' (B) = 0"
    "portfolio_value' (B) = 100000"
    "stop_loss_price' (B) = 0"
    "take_profit_price' (B) = 0"
    "short_sma' (B) = 110"
    "long_sma' (B) = 105"
    by (simp_all add: B_def A calculate_smas_def size_lt_def Let_def eval_nat_numeral)
  have sg: "generate_signal B = 1"
    by (simp add: generate_signal_def B)
  have cps: "calculate_position_size B Bar_default 100000 = 2000"
    by (simp add: B calculate_position_size_def calculate_base_position_size_def
        calculate_win_rate_def calculate_avg_win_def calculate_avg_loss_def
        calculate_volatility_adjustment_def RiskConfig_default_def Let_def)
  define C where "C = open_position B 20240103 110 1"
  have C:
    "closes' (C) = [100, 110]"
    "lw' (C) = 2"
    "sw' (C) = 1"
    "fee' (C) = 0"
    "symbol' (C) = ''DEMO''"
    "risk_config' (C) = RiskConfig_default"
    "pos_quantity (current_position' (C)) = 200 / 11"
    "avg_entry_price (current_position' (C)) = 110"
    "cash' (C) = 98000"
    "trades' (C) = [\<lparr>trade_date = 20240103, trade_side = BUY, trade_type = ENTRY, trade_price = 110, trade_quantity = 200 / 11, trade_pnl = 0, trade_symbol = ''DEMO''\<rparr>]"
    "position' (C) = 0"
    "portfolio_value' (C) = 100000"
    "stop_loss_price' (C) = 1078 / 10"
    "take_profit_price' (C) = 1166 / 10"
    by (simp_all add: C_def B cps open_position_def Let_def update_position_value_def
        calculate_stop_loss_def calculate_take_profit_def calculate_pnl_def
        RiskConfig_default_def Trade_default_def)
  define D where "D = update_position_value (C\<lparr>position' := 1\<rparr>) 110"
  have D:
    "closes' (D) = [100, 110]"
    "lw' (D) = 2"
    "sw' (D) = 1"
    "fee' (D) = 0"
    "symbol' (D) = ''DEMO''"
    "risk_config' (D) = RiskConfig_default"
    "pos_quantity (current_position' (D)) = 200 / 11"
    "avg_entry_price (current_position' (D)) = 110"
    "cash' (D) = 98000"
    "trades' (D) = [\<lparr>trade_date = 20240103, trade_side = BUY, trade_type = ENTRY, trade_price = 110, trade_quantity = 200 / 11, trade_pnl = 0, trade_symbol = ''DEMO''\<rparr>]"
    "position' (D) = 1"
    "portfolio_value' (D) = 100000"
    "stop_loss_price' (D) = 1078 / 10"
    "take_profit_price' (D) = 1166 / 10"
    by (simp_all add: D_def C update_position_value_def Let_def)
  have etl: "execute_trading_logic B bar_110 1 = D"
    by (simp add: execute_trading_logic_def B D_def C_def rising_bar_fields)
  have "run_bars sma_1_2 [bar_100, bar_110] = on_bar (run_bars sma_1_2 [bar_100]) bar_110"
    by (simp add: run_bars_def)
  also have "\<dots> = update_performance_metrics (D\<lparr>last_price' := 110, last_date' := 20240103\<rparr>)"
    using etl sg
    by (simp add: on_bar_def Let_def size_lt_def rising_run_1 A_def B_def rising_bar_fields)
  finally have e: "run_bars sma_1_2 [bar_100, bar_110]
      = update_performance_metrics (D\<lparr>last_price' := 110, last_date' := 20240103\<rparr>)" .
  show
    "closes' (run_bars sma_1_2 [bar_100, bar_110]) = [100, 110]"
    "lw' (run_bars sma_1_2 [bar_100, bar_110]) = 2"
    "sw' (run_bars sma_1_2 [bar_100, bar_110]) = 1"
    "fee' (run_bars sma_1_2 [bar_100, bar_110]) = 0"
    "symbol' (run_bars sma_1_2 [bar_100, bar_110]) = ''DEMO''"
    "risk_config' (run_bars sma_1_2 [bar_100, bar_110]) = RiskConfig_default"
    "pos_quantity (current_position' (run_bars sma_1_2 [bar_100, bar_110])) = 200 / 11"
    "avg_entry_price (current_position' (run_bars sma_1_2 [bar_100, bar_110])) = 110"
    "cash' (run_bars sma_1_2 [bar_100, bar_110]) = 98000"
    "trades' (run_bars sma_1_2 [bar_100, bar_110]) = [\<lparr>trade_date = 20240103, trade_side = BUY, trade_type = ENTRY, trade_price = 110, trade_quantity = 200 / 11, trade_pnl = 0, trade_symbol = ''DEMO''\<rparr>]"
    "position' (run_bars sma_1_2 [bar_100, bar_110]) = 1"
    "portfolio_value' (run_bars sma_1_2 [bar_100, bar_110]) = 100000"
    "stop_loss_price' (run_bars sma_1_2 [bar_100, bar_110]) = 1078 / 10"
    "take_profit_price' (run_bars sma_1_2 [bar_100, bar_110]) = 1166 / 10"
    unfolding e by (simp_all add: upm_keeps D)
qed

lemma rising_run_3:
  "closes' (run_bars sma_1_2 [bar_100, bar_110, bar_120]) = [100, 110, 120]"
  "lw' (run_bars sma_1_2 [bar_100, bar_110, bar_120]) = 2"
  "sw' (run_bars sma_1_2 [bar_100, bar_110, bar_120]) = 1"
  "fee' (run_bars sma_1_2 [bar_100, bar_110, bar_120]) = 0"
  "symbol' (run_bars sma_1_2 [bar_100, bar_110, bar_120]) = ''DEMO''"
  "risk_config' (run_bars sma_1_2 [bar_100, bar_110, bar_120]) = RiskConfig_default"
  "pos_quantity (current_position' (run_bars sma_1_2 [bar_100, bar_110, bar_120])) = 0"
  "cash' (run_bars sma_1_2 [bar_100, bar_110, bar_120]) = 1102000 / 11"
  "trades' (run_bars sma_1_2 [bar_100, bar_110, bar_120]) = [\<lparr>trade_date = 20240103, trade_side = BUY, trade_type = ENTRY, trade_price = 110, trade_quantity = 200 / 11, trade_pnl = 0, trade_symbol = ''DEMO''\<rparr>, \<lparr>trade_date = 20240104, trade_side = SELL, trade_type = EXIT, trade_price = 120, trade_quantity = 200 / 11, trade_pnl = 2000 / 11, trade_symbol = ''DEMO''\<rparr>]"
  "position' (run_bars sma_1_2 [bar_100, bar_110, bar_120]) = 1"
  "portfolio_value' (run_bars sma_1_2 [bar_100, bar_110, bar_120]) = 1102000 / 11"
  "stop_loss_price' (run_bars sma_1_2 [bar_100, bar_110, bar_120]) = 0"
  "take_profit_price' (run_bars sma_1_2 [bar_100, bar_110, bar_120]) = 0"
proof -
  define A where "A = (run_bars sma_1_2 [bar_100, bar_110])\<lparr>closes' := closes' (run_bars sma_1_2 [bar_100, bar_110]) @ [120]\<rparr>"
  have A:
    "closes' (A) = [100, 110, 120]"
    "lw' (A) = 2"
    "sw' (A) = 1"
    "fee' (A) = 0"
    "symbol' (A) = ''DEMO''"
    "risk_config' (A) = RiskConfig_default"
    "pos_quantity (current_position' (A)) = 200 / 11"
    "avg_entry_price (current_position' (A)) = 110"
    "cash' (A) = 98000"
    "trades' (A) = [\<lparr>trade_date = 20240103, trade_side = BUY, trade_type = ENTRY, trade_price = 110, trade_quantity = 200 / 11, trade_pnl = 0, trade_symbol = ''DEMO''\<rparr>]"
    "position' (A) = 1"
    "portfolio_value' (A) = 100000"
    "stop_loss_price' (A) = 1078 / 10"
    "take_profit_price' (A) = 1166 / 10"
    by (simp_all add: A_def rising_run_2)
  define B where "B = calculate_smas A"
  have B:
    "closes' (B) = [100, 110, 120]"
    "lw' (B) = 2"
    "sw' (B) = 1"
    "fee' (B) = 0"
    "symbol' (B) = ''DEMO''"
    "risk_config' (B) = RiskConfig_default"
    "pos_quantity (current_position' (B)) = 200 / 11"
    "avg_entry_price (current_position' (B)) = 110"
    "cash' (B) = 98000"
    "trades' (B) = [\<lparr>trade_date = 20240103, trade_side = BUY, trade_type = ENTRY, trade_price = 110, trade_quantity = 200 / 11, trade_pnl = 0, trade_symbol = ''DEMO''\<rparr>]"
    "position' (B) = 1"
    "portfolio_value' (B) = 100000"
    "stop_loss_price' (B) = 1078 / 10"
    "take_profit_price' (B) = 1166 / 10"
    "short_sma' (B) = 120"
    "long_sma' (B) = 115"
    by (simp_all add: B_def A calculate_smas_def size_lt_def Let_def eval_nat_numeral)
  have sg: "generate_signal B = 1"
    by (simp add: generate_signal_def B)
  have ex: "should_exit_position B bar_120 (current_position' B) = (True, B)"
    by (simp add: should_exit_position_def B rising_bar_fields Let_def)
  define C where "C = close_position B 20240104 120"
  have C:
    "closes' (C) = [100, 110, 120]"
    "lw' (C) = 2"
    "sw' (C) = 1"
    "fee' (C) = 0"
    "symbol' (C) = ''DEMO''"
    "risk_config' (C) = RiskConfig_default"
    "pos_quantity (current_position' (C)) = 0"
    "cash' (C) = 1102000 / 11"
    "trades' (C) = [\<lparr>trade_date = 20240103, trade_side = BUY, trade_type = ENTRY, trade_price = 110, trade_quantity = 200 / 11, trade_pnl = 0, trade_symbol = ''DEMO''\<rparr>, \<lparr>trade_date = 20240104, trade_side = SELL, trade_type = EXIT, trade_price = 120, trade_quantity = 200 / 11, trade_pnl = 2000 / 11, trade_symbol = ''DEMO''\<rparr>]"
    "position' (C) = 1"
    "portfolio_value' (C) = 1102000 / 11"
    "stop_loss_price' (C) = 0"
    "take_profit_price' (C) = 0"
    by (simp_all add: C_def B close_position_def Let_def Trade_default_def)
  have etl: "execute_trading_logic B bar_120 1 = C"
    by (simp add: execute_trading_logic_def B ex C_def rising_bar_fields)
  have "run_bars sma_1_2 [bar_100, bar_110, bar_120] = on_bar (run_bars sma_1_2 [bar_100, bar_110]) bar_120"
    by (simp add: run_bars_def)
  also have "\<dots> = update_performance_metrics (C\<lparr>last_price' := 120, last_date' := 20240104\<rparr>)"
    using etl sg
    by (simp add: on_bar_def Let_def size_lt_def rising_run_2 A_def B_def rising_bar_fields)
  finally have e: "run_bars sma_1_2 [bar_100, bar_110, bar_120]
      = update_performance_metrics (C\<lparr>last_price' := 120, last_date' := 20240104\<rparr>)" .
  show
    "closes' (run_bars sma_1_2 [bar_100, bar_110, bar_120]) = [100, 110, 120]"
    "lw' (run_bars sma_1_2 [bar_100, bar_110, bar_120]) = 2"
    "sw' (run_bars sma_1_2 [bar_100, bar_110, bar_120]) = 1"
    "fee' (run_bars sma_1_2 [bar_100, bar_110, bar_120]) = 0"
    "symbol' (run_bars sma_1_2 [bar_100, bar_110, bar_120]) = ''DEMO''"
    "risk_config' (run_bars sma_1_2 [bar_100, bar_110, bar_120]) = RiskConfig_default"
    "pos_quantity (current_position' (run_bars sma_1_2 [bar_100, bar_110, bar_120])) = 0"
    "cash' (run_bars sma_1_2 [bar_100, bar_110, bar_120]) = 1102000 / 11"
    "trades' (run_bars sma_1_2 [bar_100, bar_110, bar_120]) = [\<lparr>trade_date = 20240103, trade_side = BUY, trade_type = ENTRY, trade_price = 110, trade_quantity = 200 / 11, trade_pnl = 0, trade_symbol = ''DEMO''\<rparr>, \<lparr>trade_date = 20240104, trade_side = SELL, trade_type = EXIT, trade_price = 120, trade_quantity = 200 / 11, trade_pnl = 2000 / 11, trade_symbol = ''DEMO''\<rparr>]"
    "position' (run_bars sma_1_2 [bar_100, bar_110, bar_120]) = 1"
    "portfolio_value' (run_bars sma_1_2 [bar_100, bar_110, bar_120]) = 1102000 / 11"
    "stop_loss_price' (run_bars sma_1_2 [bar_100, bar_110, bar_120]) = 0"
    "take_profit_price' (run_bars sma_1_2 [bar_100, bar_110, bar_120]) = 0"
    unfolding e by (simp_all add: upm_keeps C)
qed

lemma rising_run_trades:
  "trades' (on_finish (run_bars sma_1_2 rising_bars))
     = [\<lparr>trade_date = 20240103, trade_side = BUY, trade_type = ENTRY, trade_price = 110, trade_quantity = 200 / 11, trade_pnl = 0, trade_symbol = ''DEMO''\<rparr>,
        \<lparr>trade_date = 20240104, trade_side = SELL, trade_type = EXIT, trade_price = 120, trade_quantity = 200 / 11, trade_pnl = 2000 / 11, trade_symbol = ''DEMO''\<rparr>]"
proof -
  have "run_bars sma_1_2 rising_bars = run_bars sma_1_2 [bar_100, bar_110, bar_120]"
    by (simp add: rising_bars_def)
  then show ?thesis
    by (simp add: on_finish_def calculate_final_metrics_def Let_def rising_run_3)
qed

theorem portfolio_value_is_cash_plus_position_witness:
  "portfolio_value' (run_bars sma_1_2 [bar_100, bar_110])
     = cash' (run_bars sma_1_2 [bar_100, bar_110])
       + pos_quantity (current_position' (run_bars sma_1_2 [bar_100, bar_110])) * 110
   \<and> pos_quantity (current_position' (run_bars sma_1_2 [bar_100, bar_110])) = 200 / 11
   \<and> pos_quantity (current_position' (on_finish (run_bars sma_1_2 rising_bars))) = 0
   \<and> portfolio_value' (on_finish (run_bars sma_1_2 rising_bars))
       = cash' (on_finish (run_bars sma_1_2 rising_bars))"
proof -
  have h: "\<forall>b \<in> set rising_bars. 0 < bar_close b"
    by (simp add: rising_bars_def rising_bar_fields)
  note T = portfolio_value_is_cash_plus_position [OF h, of sma_1_2]
  have n: "0 < (2::nat) \<and> 2 \<le> length rising_bars" by (simp add: rising_bars_def)
  have t: "take 2 rising_bars = [bar_100, bar_110]" by (simp add: rising_bars_def)
  have c: "bar_close (rising_bars ! (2 - 1)) = 110"
    by (simp add: rising_bars_def rising_bar_fields)
  from T [THEN conjunct1, rule_format, OF n, THEN conjunct1]
  have "portfolio_value' (run_bars sma_1_2 [bar_100, bar_110])
     = cash' (run_bars sma_1_2 [bar_100, bar_110])
       + pos_quantity (current_position' (run_bars sma_1_2 [bar_100, bar_110])) * 110"
    unfolding t c .
  then show ?thesis
    using T [THEN conjunct2] by (simp add: rising_run_2)
qed

subsection \<open>The tester\<close>

lemma simulation_loop_state:
  "fst (simulation_loop vt data (s, pvs, cs)) = foldl (v_on_bar vt) s data"
  by (induction data arbitrary: s pvs cs) (simp_all add: Let_def)

lemma simulation_loop_calls:
  "snd (snd (simulation_loop vt data (s, pvs, cs))) = cs @ map Call_on_bar data"
  by (induction data arbitrary: s pvs cs) (simp_all add: Let_def)

lemma run_strategy_simulation_values:
  "fst (run_strategy_simulation vt strategy data) \<noteq> []"
  by (simp add: run_strategy_simulation_def Let_def split: prod.splits)

lemma run_strategy_simulation_state:
  "fst (snd (run_strategy_simulation vt strategy data))
     = v_on_finish vt (foldl (v_on_bar vt) (v_on_start vt strategy) data)"
proof -
  obtain s1 pvs cs where e:
    "simulation_loop vt data (v_on_start vt strategy, [], [Call_on_start]) = (s1, pvs, cs)"
    by (cases "simulation_loop vt data (v_on_start vt strategy, [], [Call_on_start])") auto
  have "s1 = foldl (v_on_bar vt) (v_on_start vt strategy) data"
    using simulation_loop_state [of vt data "v_on_start vt strategy" "[]" "[Call_on_start]"] e
    by simp
  then show ?thesis
    by (simp add: run_strategy_simulation_def Let_def e)
qed

lemma trade_metrics_total_trades:
  "total_trades (trade_metrics ts m) =
     (if filter (\<lambda>t. trade_type t = EXIT) ts = [] then total_trades m
      else int (length (filter (\<lambda>t. trade_type t = EXIT) ts)))"
  by (auto simp add: trade_metrics_def Let_def)

lemma sum_list_pos_real:
  fixes xs :: "real list"
  assumes "xs \<noteq> []" "\<forall>x \<in> set xs. 0 < x"
  shows "0 < sum_list xs"
  using assms by (induction xs) (auto intro: add_pos_nonneg sum_list_nonneg less_imp_le)

lemma trade_metrics_profit_factor_wins_only:
  assumes "\<exists>t \<in> set ts. trade_type t = EXIT \<and> trade_pnl t > 0"
    and "\<forall>t \<in> set ts. trade_type t = EXIT \<longrightarrow> \<not> trade_pnl t < 0"
  shows "profit_factor (trade_metrics ts m) = 1000"
proof -
  define exits where "exits = filter (\<lambda>t. trade_type t = EXIT) ts"
  have ne: "ts \<noteq> []" "exits \<noteq> []"
    using assms(1) by (auto simp add: exits_def filter_empty_conv)
  have "filter (\<lambda>t. \<not> trade_pnl t > 0 \<and> trade_pnl t < 0) exits = []"
    using assms(2) by (auto simp add: exits_def filter_empty_conv)
  then have losses: "sum_list (map (\<lambda>t. \<bar>trade_pnl t\<bar>)
      (filter (\<lambda>t. \<not> trade_pnl t > 0 \<and> trade_pnl t < 0) exits)) = 0"
    by simp
  have "filter (\<lambda>t. trade_pnl t > 0) exits \<noteq> []"
    using assms(1) by (auto simp add: exits_def filter_empty_conv)
  then have wins: "0 < sum_list (map trade_pnl (filter (\<lambda>t. trade_pnl t > 0) exits))"
    by (intro sum_list_pos_real) auto
  show ?thesis
    using ne wins losses
    unfolding trade_metrics_def Let_def exits_def [symmetric]
    by simp
qed

lemma trade_metrics_profit_factor_neither:
  assumes "\<forall>t \<in> set ts. trade_type t = EXIT \<longrightarrow> trade_pnl t = 0"
  shows "profit_factor (trade_metrics ts m) = profit_factor m"
proof -
  define exits where "exits = filter (\<lambda>t. trade_type t = EXIT) ts"
  have "filter (\<lambda>t. \<not> trade_pnl t > 0 \<and> trade_pnl t < 0) exits = []"
    using assms by (auto simp add: exits_def filter_empty_conv)
  then have losses: "sum_list (map (\<lambda>t. \<bar>trade_pnl t\<bar>)
      (filter (\<lambda>t. \<not> trade_pnl t > 0 \<and> trade_pnl t < 0) exits)) = 0"
    by simp
  have "filter (\<lambda>t. trade_pnl t > 0) exits = []"
    using assms by (auto simp add: exits_def filter_empty_conv)
  then have wins: "sum_list (map trade_pnl (filter (\<lambda>t. trade_pnl t > 0) exits)) = 0"
    by simp
  show ?thesis
    using wins losses
    unfolding trade_metrics_def Let_def exits_def [symmetric]
    by simp
qed

text \<open>The result of test_strategy when the validation passes and a strategy is made.\<close>

lemma test_strategy_simulated:
  assumes "validate_chronological_order data = Inr ()" and "data \<noteq> []"
    and "create_strategy mk_sma mk_rsi mk_macd (config_strategy_name config)
           (config_parameters config) (config_symbol config) = Some strategy"
  shows "\<exists>m. profit_factor m = 0
           \<and> total_trades (fst (test_strategy vt mk_sma mk_rsi mk_macd config data))
             = total_trades (trade_metrics
                 (v_get_trades vt (v_on_finish vt (foldl (v_on_bar vt) (v_on_start vt strategy) data)))
                 (m\<lparr>total_trades := v_get_trade_count vt
                     (v_on_finish vt (foldl (v_on_bar vt) (v_on_start vt strategy) data))\<rparr>))
           \<and> profit_factor (fst (test_strategy vt mk_sma mk_rsi mk_macd config data))
             = profit_factor (trade_metrics
                 (v_get_trades vt (v_on_finish vt (foldl (v_on_bar vt) (v_on_start vt strategy) data)))
                 (m\<lparr>total_trades := v_get_trade_count vt
                     (v_on_finish vt (foldl (v_on_bar vt) (v_on_start vt strategy) data))\<rparr>))"
proof -
  obtain pvs final calls where r:
    "run_strategy_simulation vt strategy data = (pvs, final, calls)"
    by (cases "run_strategy_simulation vt strategy data") auto
  have pvs: "pvs \<noteq> []"
    using run_strategy_simulation_values [of vt strategy data] r by simp
  have final: "final = v_on_finish vt (foldl (v_on_bar vt) (v_on_start vt strategy) data)"
    using run_strategy_simulation_state [of vt strategy data] r by simp
  obtain ig where ig: "validate_data_integrity data = Inr ig"
    using assms(2) by (simp add: validate_data_integrity_def Let_def)
  define m0 where "m0 = StrategyMetrics_default\<lparr>strategy_name := config_strategy_name config,
            parameters := config_parameters config, symbol := config_symbol config\<rparr>"
  define m1 where "m1 = (if portfolio_returns pvs \<noteq> [] then
                             m0\<lparr>total_return :=
                                 (last pvs - initial_capital config)
                                   / initial_capital config,
                               sharpe_ratio := calculate_sharpe_ratio (portfolio_returns pvs),
                               max_drawdown := calculate_max_drawdown pvs,
                               var_95 := calculate_var (portfolio_returns pvs) 0.95,
                               expected_shortfall := calculate_expected_shortfall (portfolio_returns pvs) 0.95\<rparr>
                           else m0)"
  have pf: "profit_factor m1 = 0"
    by (simp add: m1_def m0_def StrategyMetrics_default_def)
  show ?thesis
    apply (rule exI [of _ m1])
    unfolding final [symmetric]
    using pvs pf
    by (simp add: test_strategy_def assms(1,3) ig validate_ohlc_relationships_def r Let_def
        m1_def [symmetric] m0_def [symmetric] calculate_composite_score_def)
qed

lemma open_position_trade_count: "get_trade_count (open_position s d p dir) = get_trade_count s"
  by (simp add: get_trade_count_def open_position_def Let_def update_position_value_def
      Trade_default_def)

lemma sma_vtable_fields:
  "v_on_start SmaCrossStrategy_vtable = on_start" "v_on_bar SmaCrossStrategy_vtable = on_bar"
  "v_on_finish SmaCrossStrategy_vtable = on_finish"
  "v_get_portfolio_value SmaCrossStrategy_vtable = get_portfolio_value"
  "v_get_trade_count SmaCrossStrategy_vtable = get_trade_count"
  "v_get_trades SmaCrossStrategy_vtable = get_trades"
  by (simp_all add: SmaCrossStrategy_vtable_def)

lemma create_sma:
  assumes "config_strategy_name config = ''SMA''" and "length (config_parameters config) \<ge> 3"
  shows "create_strategy mk_sma_strategy mk_rsi mk_macd (config_strategy_name config)
           (config_parameters config) (config_symbol config)
         = Some (make_sma_strategy (trunc_int (config_parameters config ! 0))
                   (trunc_int (config_parameters config ! 1)) (config_parameters config ! 2)
                   (config_symbol config))"
  using assms by (simp add: create_strategy_def mk_sma_strategy_def)

text \<open>
  Claim C10. Only Exit trades are counted. \<open>get_trade_count\<close> grows by one when an Exit
  record is appended and not at all when an Entry record is appended; opening a position
  leaves it unchanged; and when \<open>test_strategy\<close> simulates the SMA strategy, the reported
  \<open>total_trades\<close> is the number of Exit records in the trade log of the strategy. The
  recount of completed trades in \<open>test_strategy\<close> replaces the stored number by the number
  of Exit records of the log whenever the log has one, and leaves it as it is otherwise; so
  for every strategy that \<open>test_strategy\<close> simulates, the reported \<open>total_trades\<close> is the
  number of Exit records of \<open>get_trades\<close> when there is one, and the value of the
  strategy's own \<open>get_trade_count\<close> when there is none.
\<close>

theorem trade_count_counts_exits_only:
  "get_trade_count (s\<lparr>trades' := ts @ [t]\<rparr>)
     = get_trade_count (s\<lparr>trades' := ts\<rparr>) + (if trade_type t = EXIT then 1 else 0)
   \<and> get_trade_count (open_position s d p dir) = get_trade_count s
   \<and> (validate_chronological_order data = Inr () \<and> data \<noteq> []
        \<and> config_strategy_name config = ''SMA'' \<and> length (config_parameters config) \<ge> 3 \<longrightarrow>
      total_trades (fst (test_strategy SmaCrossStrategy_vtable mk_sma_strategy mk_rsi mk_macd
                           config data))
        = int (length (filter (\<lambda>t. trade_type t = EXIT)
            (trades' (on_finish (run_bars
               (make_sma_strategy (trunc_int (config_parameters config ! 0))
                  (trunc_int (config_parameters config ! 1)) (config_parameters config ! 2)
                  (config_symbol config)) data))))))
   \<and> total_trades (trade_metrics trade_log m)
       = (if filter (\<lambda>t. trade_type t = EXIT) trade_log = [] then total_trades m
          else int (length (filter (\<lambda>t. trade_type t = EXIT) trade_log)))
   \<and> (validate_chronological_order bars = Inr () \<and> bars \<noteq> []
        \<and> create_strategy mka mkb mkc (config_strategy_name cfg) (config_parameters cfg)
              (config_symbol cfg) = Some strategy \<longrightarrow>
      total_trades (fst (test_strategy vt mka mkb mkc cfg bars))
        = (if filter (\<lambda>t. trade_type t = EXIT)
                (v_get_trades vt
                   (v_on_finish vt (foldl (v_on_bar vt) (v_on_start vt strategy) bars))) = []
           then v_get_trade_count vt
                  (v_on_finish vt (foldl (v_on_bar vt) (v_on_start vt strategy) bars))
           else int (length (filter (\<lambda>t. trade_type t = EXIT)
                  (v_get_trades vt
                     (v_on_finish vt (foldl (v_on_bar vt) (v_on_start vt strategy) bars)))))))"
proof (intro conjI impI)
  show "total_trades (trade_metrics trade_log m)
       = (if filter (\<lambda>t. trade_type t = EXIT) trade_log = [] then total_trades m
          else int (length (filter (\<lambda>t. trade_type t = EXIT) trade_log)))"
    by (rule trade_metrics_total_trades)
next
  assume b: "validate_chronological_order bars = Inr () \<and> bars \<noteq> []
        \<and> create_strategy mka mkb mkc (config_strategy_name cfg) (config_parameters cfg)
              (config_symbol cfg) = Some strategy"
  define final where
    "final = v_on_finish vt (foldl (v_on_bar vt) (v_on_start vt strategy) bars)"
  from test_strategy_simulated [of bars mka mkb mkc cfg strategy vt] b
  obtain m1 where m1: "total_trades (fst (test_strategy vt mka mkb mkc cfg bars))
             = total_trades (trade_metrics (v_get_trades vt final)
                 (m1\<lparr>total_trades := v_get_trade_count vt final\<rparr>))"
    unfolding final_def by blast
  show "total_trades (fst (test_strategy vt mka mkb mkc cfg bars))
        = (if filter (\<lambda>t. trade_type t = EXIT)
                (v_get_trades vt
                   (v_on_finish vt (foldl (v_on_bar vt) (v_on_start vt strategy) bars))) = []
           then v_get_trade_count vt
                  (v_on_finish vt (foldl (v_on_bar vt) (v_on_start vt strategy) bars))
           else int (length (filter (\<lambda>t. trade_type t = EXIT)
                  (v_get_trades vt
                     (v_on_finish vt (foldl (v_on_bar vt) (v_on_start vt strategy) bars))))))"
    unfolding final_def [symmetric] m1 by (simp add: trade_metrics_total_trades)
next
  show "get_trade_count (s\<lparr>trades' := ts @ [t]\<rparr>)
     = get_trade_count (s\<lparr>trades' := ts\<rparr>) + (if trade_type t = EXIT then 1 else 0)"
    by (simp add: get_trade_count_def)
next
  show "get_trade_count (open_position s d p dir) = get_trade_count s"
    by (rule open_position_trade_count)
next
  assume a: "validate_chronological_order data = Inr () \<and> data \<noteq> []
        \<and> config_strategy_name config = ''SMA'' \<and> length (config_parameters config) \<ge> 3"
  define strategy where "strategy = make_sma_strategy (trunc_int (config_parameters config ! 0))
                  (trunc_int (config_parameters config ! 1)) (config_parameters config ! 2)
                  (config_symbol config)"
  have c: "create_strategy mk_sma_strategy mk_rsi mk_macd (config_strategy_name config)
           (config_parameters config) (config_symbol config) = Some strategy"
    unfolding strategy_def using a by (intro create_sma) simp_all
  from test_strategy_simulated [of data mk_sma_strategy mk_rsi mk_macd config strategy
      SmaCrossStrategy_vtable] a c
  obtain m where m: "total_trades (fst (test_strategy SmaCrossStrategy_vtable mk_sma_strategy mk_rsi mk_macd config data))
             = total_trades (trade_metrics
                 (get_trades (on_finish (foldl on_bar (on_start strategy) data)))
                 (m\<lparr>total_trades := get_trade_count
                     (on_finish (foldl on_bar (on_start strategy) data))\<rparr>))"
    unfolding sma_vtable_fields by blast
  show "total_trades (fst (test_strategy SmaCrossStrategy_vtable mk_sma_strategy mk_rsi mk_macd
                           config data))
        = int (length (filter (\<lambda>t. trade_type t = EXIT)
            (trades' (on_finish (run_bars strategy data)))))"
    unfolding m by (simp add: trade_metrics_total_trades get_trades_def get_trade_count_def run_bars_def)
qed

lemma rising_bars_chronological: "validate_chronological_order rising_bars = Inr ()"
  by (simp add: validate_chronological_order_def rising_bars_def rising_bar_fields Let_def
      upt_conv_Cons)

lemma sma_config_fields:
  "config_strategy_name sma_config = ''SMA''" "config_parameters sma_config = [1, 2, 0]"
  "config_symbol sma_config = ''DEMO''"
  by (simp_all add: sma_config_def)

lemma sma_config_strategy:
  "make_sma_strategy (trunc_int (config_parameters sma_config ! 0))
     (trunc_int (config_parameters sma_config ! 1)) (config_parameters sma_config ! 2)
     (config_symbol sma_config) = sma_1_2"
  by (simp add: sma_config_fields trunc_int_def sma_1_2_def)

lemma default_count_vtable_fields:
  "v_on_start default_count_vtable = on_start" "v_on_bar default_count_vtable = on_bar"
  "v_on_finish default_count_vtable = on_finish"
  "v_get_trade_count default_count_vtable = (\<lambda>s. 0)"
  "v_get_trades default_count_vtable = get_trades"
  by (simp_all add: default_count_vtable_def SmaCrossStrategy_vtable_def)

theorem trade_count_counts_exits_only_witness:
  "total_trades (fst (test_strategy SmaCrossStrategy_vtable mk_sma_strategy no_rsi no_macd
                        sma_config rising_bars)) = 1
   \<and> length (trades' (on_finish (run_bars sma_1_2 rising_bars))) = 2
   \<and> v_get_trade_count default_count_vtable (on_finish (run_bars sma_1_2 rising_bars)) = 0
   \<and> total_trades (fst (test_strategy default_count_vtable mk_sma_strategy no_rsi no_macd
                          sma_config rising_bars)) = 1"
proof -
  have h: "validate_chronological_order rising_bars = Inr () \<and> rising_bars \<noteq> []
        \<and> config_strategy_name sma_config = ''SMA'' \<and> length (config_parameters sma_config) \<ge> 3"
    by (simp add: rising_bars_chronological sma_config_fields) (simp add: rising_bars_def)
  have c: "create_strategy mk_sma_strategy no_rsi no_macd (config_strategy_name sma_config)
             (config_parameters sma_config) (config_symbol sma_config) = Some sma_1_2"
    unfolding sma_config_strategy [symmetric]
    by (rule create_sma) (simp_all add: sma_config_fields)
  have g: "validate_chronological_order rising_bars = Inr () \<and> rising_bars \<noteq> []
        \<and> create_strategy mk_sma_strategy no_rsi no_macd (config_strategy_name sma_config)
              (config_parameters sma_config) (config_symbol sma_config) = Some sma_1_2"
    using h c by simp
  note T = trade_count_counts_exits_only [where data = rising_bars and config = sma_config
      and mk_rsi = no_rsi and mk_macd = no_macd and bars = rising_bars and cfg = sma_config
      and mka = mk_sma_strategy and mkb = no_rsi and mkc = no_macd
      and strategy = sma_1_2 and vt = default_count_vtable]
  from T [THEN conjunct2, THEN conjunct2, THEN conjunct1, rule_format, OF h,
      unfolded sma_config_strategy]
  have a: "total_trades (fst (test_strategy SmaCrossStrategy_vtable mk_sma_strategy no_rsi no_macd
                        sma_config rising_bars)) = 1"
    by (simp add: rising_run_trades)
  from T [THEN conjunct2, THEN conjunct2, THEN conjunct2, THEN conjunct2, rule_format, OF g]
  have b: "total_trades (fst (test_strategy default_count_vtable mk_sma_strategy no_rsi no_macd
                          sma_config rising_bars)) = 1"
    by (simp add: default_count_vtable_fields run_bars_def [symmetric] get_trades_def
        rising_run_trades)
  show ?thesis
    using a b by (simp add: rising_run_trades default_count_vtable_fields)
qed

text \<open>
  Claim C9. When \<open>test_strategy\<close> has simulated a strategy and its completed (Exit) trades
  include a winning trade and no losing trade, the reported profit factor is exactly 1000;
  when no Exit trade has a non-zero profit or loss, it stays 0.
\<close>

theorem profit_factor_sentinel:
  assumes "validate_chronological_order data = Inr ()" and "data \<noteq> []"
    and "create_strategy mk_sma mk_rsi mk_macd (config_strategy_name config)
           (config_parameters config) (config_symbol config) = Some strategy"
  shows "((\<exists>t \<in> set (v_get_trades vt (v_on_finish vt
                (foldl (v_on_bar vt) (v_on_start vt strategy) data))).
             trade_type t = EXIT \<and> trade_pnl t > 0)
          \<and> (\<forall>t \<in> set (v_get_trades vt (v_on_finish vt
                (foldl (v_on_bar vt) (v_on_start vt strategy) data))).
               trade_type t = EXIT \<longrightarrow> \<not> trade_pnl t < 0)
          \<longrightarrow> profit_factor (fst (test_strategy vt mk_sma mk_rsi mk_macd config data)) = 1000)
       \<and> ((\<forall>t \<in> set (v_get_trades vt (v_on_finish vt
                (foldl (v_on_bar vt) (v_on_start vt strategy) data))).
               trade_type t = EXIT \<longrightarrow> trade_pnl t = 0)
          \<longrightarrow> profit_factor (fst (test_strategy vt mk_sma mk_rsi mk_macd config data)) = 0)"
proof -
  from test_strategy_simulated [OF assms, of vt]
  obtain m where m0: "profit_factor m = 0"
    and m: "profit_factor (fst (test_strategy vt mk_sma mk_rsi mk_macd config data))
             = profit_factor (trade_metrics
                 (v_get_trades vt (v_on_finish vt (foldl (v_on_bar vt) (v_on_start vt strategy) data)))
                 (m\<lparr>total_trades := v_get_trade_count vt
                     (v_on_finish vt (foldl (v_on_bar vt) (v_on_start vt strategy) data))\<rparr>))"
    by blast
  show ?thesis
    unfolding m
    using m0
    by (auto simp add: trade_metrics_profit_factor_wins_only trade_metrics_profit_factor_neither
        simp del: split_paired_All split_paired_Ex)
qed

theorem profit_factor_sentinel_witness:
  "profit_factor (fst (test_strategy SmaCrossStrategy_vtable mk_sma_strategy no_rsi no_macd
                         sma_config rising_bars)) = 1000"
proof -
  have ne: "rising_bars \<noteq> []" by (simp add: rising_bars_def)
  have c: "create_strategy mk_sma_strategy no_rsi no_macd (config_strategy_name sma_config)
           (config_parameters sma_config) (config_symbol sma_config) = Some sma_1_2"
    by (simp add: create_strategy_def mk_sma_strategy_def sma_config_fields trunc_int_def
        sma_1_2_def)
  have t: "v_get_trades SmaCrossStrategy_vtable (v_on_finish SmaCrossStrategy_vtable
            (foldl (v_on_bar SmaCrossStrategy_vtable) (v_on_start SmaCrossStrategy_vtable sma_1_2)
               rising_bars))
        = trades' (on_finish (run_bars sma_1_2 rising_bars))"
    by (simp add: sma_vtable_fields get_trades_def run_bars_def)
  from profit_factor_sentinel [OF rising_bars_chronological ne c, of SmaCrossStrategy_vtable,
      THEN conjunct1]
  show ?thesis
    unfolding t rising_run_trades by simp
qed

lemma chronological_violation_raises:
  assumes "0 < i" and "i < length data" and "bar_date (data ! i) \<le> bar_date (data ! (i - 1))"
  shows "validate_chronological_order data
           = Inl (Runtime_Error ''Data is NOT in chronological order! Lookahead bias possible.'')"
proof -
  have "i \<in> set [1..<length data]" using assms(1,2) by simp
  then have "filter (\<lambda>i. bar_date (data ! i) \<le> bar_date (data ! (i - 1))) [1..<length data] \<noteq> []"
    using assms(3) by (auto simp add: filter_empty_conv)
  moreover have "\<not> length data < 2" using assms(1,2) by arith
  ultimately show ?thesis
    by (simp add: validate_chronological_order_def Let_def)
qed

text \<open>
  Claim C3. For a bar sequence of length at least 2 that has an index \<open>i > 0\<close> with
  \<open>date[i] \<le> date[i-1]\<close>, the chronological validation raises its runtime error, and
  \<open>test_strategy\<close> returns the initial metrics of the configuration having made no call at
  all on the factory or on a strategy: no strategy is created and no bar is processed.
\<close>

theorem non_chronological_data_aborts_test:
  assumes "2 \<le> length data"
    and "\<exists>i. 0 < i \<and> i < length data \<and> bar_date (data ! i) \<le> bar_date (data ! (i - 1))"
  shows "validate_chronological_order data
           = Inl (Runtime_Error ''Data is NOT in chronological order! Lookahead bias possible.'')
         \<and> test_strategy vt mk_sma mk_rsi mk_macd config data
           = (StrategyMetrics_default\<lparr>strategy_name := config_strategy_name config,
                parameters := config_parameters config, symbol := config_symbol config\<rparr>, [])"
proof -
  from assms(2) obtain i where "0 < i" "i < length data"
    "bar_date (data ! i) \<le> bar_date (data ! (i - 1))" by blast
  then have v: "validate_chronological_order data
           = Inl (Runtime_Error ''Data is NOT in chronological order! Lookahead bias possible.'')"
    by (rule chronological_violation_raises)
  then show ?thesis
    by (simp add: test_strategy_def Let_def)
qed

theorem non_chronological_data_aborts_test_witness:
  "test_strategy SmaCrossStrategy_vtable mk_sma_strategy no_rsi no_macd sma_config
     [bar_110, bar_100]
   = (StrategyMetrics_default\<lparr>strategy_name := ''SMA'', parameters := [1, 2, 0],
        symbol := ''DEMO''\<rparr>, [])
   \<and> isl (validate_chronological_order [bar_110, bar_100])"
proof -
  have l: "2 \<le> length [bar_110, bar_100]" by simp
  have e: "\<exists>i. 0 < i \<and> i < length [bar_110, bar_100]
        \<and> bar_date ([bar_110, bar_100] ! i) \<le> bar_date ([bar_110, bar_100] ! (i - 1))"
    by (rule exI [of _ 1]) (simp add: rising_bar_fields)
  from non_chronological_data_aborts_test [OF l e, of SmaCrossStrategy_vtable mk_sma_strategy
      no_rsi no_macd sma_config]
  show ?thesis by (simp add: sma_config_fields)
qed

lemma strictly_increasing_chronological:
  assumes "strictly_increasing_dates data"
  shows "validate_chronological_order data = Inr ()"
proof -
  have "filter (\<lambda>i. bar_date (data ! i) \<le> bar_date (data ! (i - 1))) [1..<length data] = []"
    using assms
    by (auto simp add: strictly_increasing_dates_def filter_empty_conv list_all_iff)
  then show ?thesis
    by (simp add: validate_chronological_order_def Let_def)
qed

text \<open>
  Claim C4, as amended. For every non-empty bar sequence whose dates are strictly
  increasing and whose bars have valid OHLC values, none of the three validator passes
  raises an error.
\<close>

theorem validator_accepts_clean_data:
  assumes "data \<noteq> []" and "strictly_increasing_dates data" and "list_all valid_ohlc data"
  shows "validation_raises_nothing data"
  using assms strictly_increasing_chronological [of data]
  by (simp add: validation_raises_nothing_def validate_data_integrity_def
      validate_ohlc_relationships_def Let_def)

lemma rising_bars_valid: "list_all valid_ohlc rising_bars"
  by (simp add: rising_bars_def valid_ohlc_def bar_100_def bar_110_def bar_120_def flat_bar_def)

lemma rising_bars_increasing: "strictly_increasing_dates rising_bars"
  by (simp add: strictly_increasing_dates_def rising_bars_def rising_bar_fields upt_conv_Cons)

theorem validator_accepts_clean_data_witness:
  "validation_raises_nothing rising_bars
   \<and> validate_data_integrity rising_bars = Inr (0, 0)"
proof -
  have ne: "rising_bars \<noteq> []" by (simp add: rising_bars_def)
  from validator_accepts_clean_data [OF ne rising_bars_increasing rising_bars_valid]
  show ?thesis
    by (simp add: validate_data_integrity_def Let_def)
       (simp add: rising_bars_def bar_100_def bar_110_def bar_120_def flat_bar_def upt_conv_Cons)
qed

text \<open>
  Claim C4 as stated fails: the empty sequence satisfies both premises, and
  \<open>validate_data_integrity\<close> raises on it.
\<close>

theorem validator_rejects_empty_data:
  "\<not> (\<forall>data. strictly_increasing_dates data \<and> list_all valid_ohlc data
         \<longrightarrow> validation_raises_nothing data)"
proof
  assume "\<forall>data. strictly_increasing_dates data \<and> list_all valid_ohlc data
         \<longrightarrow> validation_raises_nothing data"
  then have "strictly_increasing_dates [] \<and> list_all valid_ohlc []
         \<longrightarrow> validation_raises_nothing []" by (rule spec)
  then show False
    by (simp add: strictly_increasing_dates_def validation_raises_nothing_def
        validate_data_integrity_def)
qed

subsection \<open>Position sizing and stops\<close>

lemma one_win_one_loss_stats:
  "calculate_win_rate one_win_one_loss = 1 / 2"
  "calculate_avg_win one_win_one_loss = 100"
  "calculate_avg_loss one_win_one_loss = - 300"
  "max_portfolio_risk (risk_config' one_win_one_loss) = 2 / 100"
  by (simp_all add: one_win_one_loss_def calculate_win_rate_def calculate_avg_win_def
      calculate_avg_loss_def Trade_default_def on_start_def sma_1_2_def make_sma_strategy_def
      RiskConfig_default_def)

lemma kelly_branch_of_code:
  assumes "\<not> (calculate_win_rate s \<le> 0 \<or> calculate_avg_win s \<le> 0 \<or> calculate_avg_loss s \<ge> 0)"
  shows "calculate_base_position_size s pv
     = pv * max (min (calculate_win_rate s
                       + (1 - calculate_win_rate s) * \<bar>calculate_avg_loss s\<bar>
                         / calculate_avg_win s)
                    (max_portfolio_risk (risk_config' s))) 0.001"
  using assms by (simp add: calculate_base_position_size_def Let_def)

lemma fallback_branch_of_code:
  assumes "calculate_win_rate s \<le> 0 \<or> calculate_avg_win s \<le> 0 \<or> calculate_avg_loss s \<ge> 0"
  shows "calculate_base_position_size s pv = pv * max_portfolio_risk (risk_config' s)"
  using assms by (simp add: calculate_base_position_size_def Let_def)

text \<open>
  Claim C6, at a failing input. With one winning trade of 100 and one losing trade of
  -300 the win rate is 1/2, the Kelly fraction of the specification is
  \<open>1/2 - 1/2 * 300 / 100 = -1\<close>, clamped to 0.001, so the base size of a portfolio of
  100000 would be 100. The code subtracts the signed (negative) average loss, obtains
  \<open>1/2 + 3/2 = 2\<close>, clamps to 0.02 and returns 2000.
\<close>

theorem kelly_fraction_sign:
  "calculate_base_position_size one_win_one_loss 100000 = 2000
   \<and> base_position_size_spec 100000 (max_portfolio_risk (risk_config' one_win_one_loss))
       (calculate_win_rate one_win_one_loss) (calculate_avg_win one_win_one_loss)
       (calculate_avg_loss one_win_one_loss) = 100"
  by (simp add: calculate_base_position_size_def base_position_size_spec_def
      one_win_one_loss_stats Let_def)

lemma fourteen_closes_fields:
  "length (closes' fourteen_closes) = 14"
  "risk_config' fourteen_closes = RiskConfig_default"
  by (simp_all add: fourteen_closes_def on_start_def sma_1_2_def make_sma_strategy_def
      RiskConfig_default_def)

lemma atr_stop_short_history:
  assumes "length (closes' s) < nat (trunc_int (atr_period (risk_config' s)))"
  shows "calculate_atr_stop_loss s bar entry_price
           = entry_price * (1 - stop_loss_pct (risk_config' s))"
  using assms by (simp add: calculate_atr_stop_loss_def)

lemma atr_stop_long_history:
  assumes "enable_atr_stops (risk_config' s)"
    and "nat (trunc_int (atr_period (risk_config' s))) + 1 \<le> length (closes' s)"
  shows "calculate_atr_stop_loss s bar entry_price
           = entry_price
             - calculate_atr s (trunc_int (atr_period (risk_config' s)))
               * atr_multiplier (risk_config' s)"
    and "calculate_atr_take_profit s bar entry_price
           = entry_price
             + 3 * (calculate_atr s (trunc_int (atr_period (risk_config' s)))
                    * atr_multiplier (risk_config' s))"
  using assms by (simp_all add: calculate_atr_stop_loss_def calculate_atr_take_profit_def Let_def)

text \<open>
  Claim C7, at a failing input. With exactly 14 closes (the ATR period, one fewer than
  the \<open>period + 1\<close> that \<open>calculate_atr\<close> needs) and an entry price of 113, the guard of
  \<open>calculate_atr_stop_loss\<close> does not select the percentage stop 110.74: the function
  asks \<open>calculate_atr\<close>, gets 0, and returns the entry price itself, as does the take-profit.
\<close>

theorem atr_stop_with_period_closes:
  "calculate_atr_stop_loss fourteen_closes Bar_default 113 = 113
   \<and> calculate_atr_take_profit fourteen_closes Bar_default 113 = 113
   \<and> length (closes' fourteen_closes) < 14 + 1
   \<and> 113 * (1 - stop_loss_pct (risk_config' fourteen_closes)) = 11074 / 100"
  by (simp add: calculate_atr_stop_loss_def calculate_atr_take_profit_def calculate_atr_def
      fourteen_closes_fields RiskConfig_default_def trunc_int_def size_lt_def Let_def)

theorem atr_stop_with_period_closes_witness:
  "calculate_atr_stop_loss fourteen_closes Bar_default 113 \<noteq> 11074 / 100"
  using atr_stop_with_period_closes by simp

section \<open>Verification of the CSV round trip\<close>

declare digits_of.simps [simp del] ndigits.simps [simp del]

lemma replicate_numeral: "replicate (numeral k) x = x # replicate (pred_numeral k) x"
  by (simp add: numeral_eq_Suc)

lemmas number_text_defs = replicate_numeral put_double_def put_int_def significand6_def
  decimal_exponent_def round_half_even_def pow10_def with_fraction_def strip_trailing_zeros_def
  exponent_digits_def digit_char_def digit_chars_def is_digit_def digit_val_def
  nat_of_digits_def read_sign_def read_exponent_def special_number_def stod_def stoi_def
  is_space_def digits_of.simps ndigits.simps Let_def

subsection \<open>Reading tokens\<close>

lemma getline_loop_delim:
  "delim \<notin> set a \<Longrightarrow>
     getline_loop delim token (a @ delim # rest) = (token @ a) # getline_loop delim [] rest"
  by (induction a arbitrary: token) auto

lemma getline_loop_end:
  "delim \<notin> set a \<Longrightarrow>
     getline_loop delim token a = (if token @ a = [] then [] else [token @ a])"
  by (induction a arbitrary: token) auto

lemma getline_all_delim:
  "delim \<notin> set a \<Longrightarrow> getline_all delim (a @ delim # rest) = a # getline_all delim rest"
  by (simp add: getline_all_def getline_loop_delim)

lemma getline_all_end:
  "delim \<notin> set a \<Longrightarrow> getline_all delim a = (if a = [] then [] else [a])"
  by (simp add: getline_all_def getline_loop_end)

subsection \<open>The characters of printed numbers\<close>

lemma digit_char_is_digit: "d < 10 \<Longrightarrow> is_digit (digit_char d)"
  unfolding is_digit_def digit_char_def by (rule nth_mem) (simp add: digit_chars_def)

lemma digit_val_digit_char: "d < 10 \<Longrightarrow> digit_val (digit_char d) = d"
proof -
  assume "d < 10"
  then have "d \<in> {0, 1, 2, 3, 4, 5, 6, 7, 8, 9}" by auto
  then show ?thesis
    by (auto simp add: digit_val_def digit_char_def digit_chars_def)
qed

lemma digits_of_digits: "c \<in> set (digits_of n) \<Longrightarrow> is_digit c"
proof (induction n rule: digits_of.induct)
  case (1 n)
  show ?case
  proof (cases "n < 10")
    case True
    then show ?thesis using "1.prems" by (simp add: digits_of.simps digit_char_is_digit)
  next
    case False
    then have "c \<in> set (digits_of (n div 10)) \<or> c = digit_char (n mod 10)"
      using "1.prems" by (auto simp add: digits_of.simps [of n])
    then show ?thesis
      using "1.IH" False by (auto simp add: digit_char_is_digit)
  qed
qed

lemma digits_of_not_empty: "digits_of n \<noteq> []"
  by (simp add: digits_of.simps [of n])

lemma is_digit_number_char: "is_digit c \<Longrightarrow> number_char c"
  by (simp add: number_char_def)

lemma strip_trailing_zeros_subset: "set (strip_trailing_zeros ds) \<subseteq> set ds"
  using set_dropWhileD [of _ "\<lambda>c. c = CHR ''0''" "rev ds"]
  by (auto simp add: strip_trailing_zeros_def)

lemma with_fraction_chars:
  assumes "c \<in> set (with_fraction ip fp)"
  shows "c \<in> set ip \<or> c \<in> set fp \<or> c = CHR ''.''"
  using assms strip_trailing_zeros_subset [of fp]
  by (auto simp add: with_fraction_def Let_def split: if_splits)

lemma with_fraction_not_empty: "ip \<noteq> [] \<Longrightarrow> with_fraction ip fp \<noteq> []"
  by (simp add: with_fraction_def Let_def)

lemma zero_is_digit: "is_digit (CHR ''0'')"
  by (simp add: is_digit_def digit_chars_def)

lemma exponent_digits_digits: "c \<in> set (exponent_digits n) \<Longrightarrow> is_digit c"
  by (auto simp add: exponent_digits_def digit_char_is_digit digits_of_digits zero_is_digit
      split: if_splits)

lemma put_double_chars:
  assumes "c \<in> set (put_double x)"
  shows "number_char c"
proof (cases "x = 0")
  case True
  then show ?thesis
    using assms by (simp add: put_double_def number_char_def is_digit_def digit_chars_def)
next
  case False
  obtain m e where me: "significand6 \<bar>x\<bar> = (m, e)"
    by (cases "significand6 \<bar>x\<bar>") auto
  define ds where "ds = digits_of (nat m)"
  have ds: "is_digit d" if "d \<in> set ds" for d
    using that by (simp add: ds_def digits_of_digits)
  have zero: "is_digit (CHR ''0'')" by (simp add: is_digit_def digit_chars_def)
  define body where "body =
               (if - 4 \<le> e \<and> e < 6 then
                  (if 0 \<le> e then with_fraction (take (nat e + 1) ds) (drop (nat e + 1) ds)
                   else with_fraction ''0'' (replicate (nat (- e - 1)) (CHR ''0'') @ ds))
                else with_fraction (take 1 ds) (drop 1 ds)
                       @ CHR ''e'' # (if e < 0 then CHR ''-'' else CHR ''+'')
                           # exponent_digits (nat \<bar>e\<bar>))"
  have body: "number_char d" if "d \<in> set body" for d
  proof -
    consider (a) "- 4 \<le> e \<and> e < 6" "0 \<le> e" | (b) "- 4 \<le> e \<and> e < 6" "\<not> 0 \<le> e"
      | (c) "\<not> (- 4 \<le> e \<and> e < 6)" by blast
    then show ?thesis
    proof cases
      case a
      then have "d \<in> set (with_fraction (take (nat e + 1) ds) (drop (nat e + 1) ds))"
        using that by (simp add: body_def)
      then have "d \<in> set ds \<or> d = CHR ''.''"
        by (auto dest!: with_fraction_chars dest: in_set_takeD in_set_dropD)
      then show ?thesis using ds by (auto simp add: number_char_def)
    next
      case b
      then have "d \<in> set (with_fraction ''0'' (replicate (nat (- e - 1)) (CHR ''0'') @ ds))"
        using that by (simp add: body_def)
      then have "d = CHR ''0'' \<or> d \<in> set ds \<or> d = CHR ''.''"
        by (auto dest!: with_fraction_chars)
      then show ?thesis using ds zero by (auto simp add: number_char_def)
    next
      case c
      then have "d \<in> set (with_fraction (take 1 ds) (drop 1 ds))
          \<or> d = CHR ''e'' \<or> d = CHR ''-'' \<or> d = CHR ''+''
          \<or> d \<in> set (exponent_digits (nat \<bar>e\<bar>))"
        using that by (auto simp add: body_def split: if_splits)
      then have "d \<in> set ds \<or> d = CHR ''.'' \<or> d = CHR ''e'' \<or> d = CHR ''-'' \<or> d = CHR ''+''
          \<or> is_digit d"
        by (auto dest!: with_fraction_chars dest: in_set_takeD in_set_dropD
            exponent_digits_digits)
      then show ?thesis using ds by (auto simp add: number_char_def)
    qed
  qed
  have "put_double x = (if x < 0 then CHR ''-'' # body else body)"
    using False by (simp add: put_double_def me ds_def body_def Let_def)
  then show ?thesis
    using assms body by (auto simp add: number_char_def split: if_splits)
qed

lemma put_double_not_empty: "put_double x \<noteq> []"
proof (cases "x = 0")
  case True
  then show ?thesis by (simp add: put_double_def)
next
  case False
  obtain m e where me: "significand6 \<bar>x\<bar> = (m, e)"
    by (cases "significand6 \<bar>x\<bar>") auto
  have "take (nat e + 1) (digits_of (nat m)) \<noteq> []" "take 1 (digits_of (nat m)) \<noteq> []"
    using digits_of_not_empty [of "nat m"] by simp_all
  then show ?thesis
    using False
    by (simp add: put_double_def me Let_def with_fraction_not_empty)
qed

lemma put_int_chars: "c \<in> set (put_int n) \<Longrightarrow> number_char c"
  by (auto simp add: put_int_def number_char_def dest: digits_of_digits split: if_splits)

lemma number_char_no_delimiter:
  "number_char c \<Longrightarrow> c \<noteq> CHR '','' \<and> c \<noteq> CHR '';'' \<and> c \<noteq> newline"
  by (auto simp add: number_char_def is_digit_def digit_chars_def newline_def)

lemma put_double_no_delimiter:
  "CHR '','' \<notin> set (put_double x)" "CHR '';'' \<notin> set (put_double x)"
  "newline \<notin> set (put_double x)"
  using put_double_chars [of _ x] number_char_no_delimiter by blast+

lemma put_int_no_delimiter:
  "CHR '','' \<notin> set (put_int n)" "newline \<notin> set (put_int n)"
  using put_int_chars [of _ n] number_char_no_delimiter by blast+

subsection \<open>Reading a printed integer\<close>

lemma nat_of_digits_snoc: "nat_of_digits (ds @ [c]) = 10 * nat_of_digits ds + digit_val c"
  by (simp add: nat_of_digits_def)

lemma nat_of_digits_digits_of: "nat_of_digits (digits_of n) = n"
proof (induction n rule: digits_of.induct)
  case (1 n)
  show ?case
  proof (cases "n < 10")
    case True
    then show ?thesis
      by (simp add: digits_of.simps nat_of_digits_def digit_val_digit_char)
  next
    case False
    then have "nat_of_digits (digits_of n) = 10 * (n div 10) + n mod 10"
      using "1.IH" by (simp add: digits_of.simps [of n] nat_of_digits_snoc digit_val_digit_char)
    then show ?thesis by simp
  qed
qed

lemma takeWhile_all: "(\<And>c. c \<in> set ds \<Longrightarrow> P c) \<Longrightarrow> takeWhile P ds = ds"
  by (induction ds) auto

lemma takeWhile_digits_of: "takeWhile is_digit (digits_of n) = digits_of n"
  by (rule takeWhile_all) (rule digits_of_digits)

lemma digit_not_space_or_sign:
  "is_digit c \<Longrightarrow> \<not> is_space c \<and> c \<noteq> CHR ''-'' \<and> c \<noteq> CHR ''+''"
  by (auto simp add: is_digit_def digit_chars_def is_space_def)

lemma digits_of_head: "\<exists>c cs. digits_of n = c # cs \<and> is_digit c"
proof -
  obtain c cs where e: "digits_of n = c # cs"
    using digits_of_not_empty [of n] by (cases "digits_of n") auto
  then have "c \<in> set (digits_of n)" by simp
  then have "is_digit c" by (rule digits_of_digits)
  then show ?thesis using e by blast
qed

lemma read_digits_of:
  "read_sign (dropWhile is_space (digits_of n)) = (False, digits_of n)"
proof -
  obtain c cs where e: "digits_of n = c # cs" and c: "is_digit c"
    using digits_of_head [of n] by blast
  then show ?thesis
    using digit_not_space_or_sign [OF c] by (simp add: read_sign_def)
qed

lemma stoi_put_int:
  assumes "- (2 ^ 31) \<le> n" and "n \<le> 2 ^ 31 - 1"
  shows "stoi (put_int n) = Inr n"
proof (cases "n < 0")
  case True
  have "\<not> is_space (CHR ''-'')" by (simp add: is_space_def)
  then have "read_sign (dropWhile is_space (put_int n)) = (True, digits_of (nat (- n)))"
    using True by (simp add: put_int_def read_sign_def)
  then show ?thesis
    using True assms
    by (simp add: stoi_def Let_def takeWhile_digits_of digits_of_not_empty
        nat_of_digits_digits_of)
next
  case False
  then have "read_sign (dropWhile is_space (put_int n)) = (False, digits_of (nat n))"
    by (simp add: put_int_def read_digits_of)
  then show ?thesis
    using False assms
    by (simp add: stoi_def Let_def takeWhile_digits_of digits_of_not_empty
        nat_of_digits_digits_of)
qed

subsection \<open>The parameters of a row\<close>

lemma join_parameters_no_comma: "CHR '','' \<notin> set (join_parameters ps)"
  by (induction ps rule: join_parameters.induct) (simp_all add: put_double_no_delimiter)

lemma newline_not_delimiter:
  "newline \<noteq> CHR '';''" "CHR '';'' \<noteq> newline" "newline \<noteq> CHR '',''"
  "CHR '','' \<noteq> newline"
  by (simp_all add: newline_def)

lemma join_parameters_no_newline: "newline \<notin> set (join_parameters ps)"
  by (induction ps rule: join_parameters.induct)
     (simp_all add: put_double_no_delimiter newline_not_delimiter)

lemma join_parameters_empty: "join_parameters ps = [] \<longleftrightarrow> ps = []"
  by (induction ps rule: join_parameters.induct) (simp_all add: put_double_not_empty)

lemma getline_all_join_parameters:
  "getline_all (CHR '';'') (join_parameters ps) = map put_double ps"
proof (induction ps rule: join_parameters.induct)
  case 1
  show ?case by (simp add: getline_all_def)
next
  case (2 p)
  show ?case
    using getline_all_end [of "CHR '';''" "put_double p"]
    by (simp add: put_double_no_delimiter put_double_not_empty)
next
  case (3 p q ps)
  show ?case
    using getline_all_delim [of "CHR '';''" "put_double p" "join_parameters (q # ps)"] "3.IH"
    by (simp add: put_double_no_delimiter)
qed

lemma read_parameters_printed:
  assumes "\<forall>p \<in> set ps. stod (put_double p) = Inr (r p)"
  shows "read_parameters (map put_double ps) m
           = Inr (m\<lparr>parameters := parameters m @ map r ps\<rparr>)"
  using assms by (induction ps arbitrary: m) (simp_all add: bind_exn_def)

subsection \<open>A row and a file\<close>

lemma csv_row_tokens:
  assumes "CHR '','' \<notin> set (strategy_name m)"
  shows "getline_all (CHR '','') (csv_row_text m)
           = [strategy_name m, put_double (total_return m), put_double (sharpe_ratio m),
              put_double (max_drawdown m), put_double (win_rate m),
              put_double (profit_factor m), put_int (total_trades m),
              put_double (composite_score m)]
             @ (if parameters m = [] then [] else [join_parameters (parameters m)])"
  using assms
  by (simp add: csv_row_text_def getline_all_delim getline_all_end put_double_no_delimiter
      put_int_no_delimiter join_parameters_no_comma join_parameters_empty)

lemma read_csv_row_printed:
  assumes "CHR '','' \<notin> set (strategy_name m)"
    and "- (2 ^ 31) \<le> total_trades m" and "total_trades m \<le> 2 ^ 31 - 1"
    and "\<forall>x \<in> set (double_fields m). stod (put_double x) = Inr (r x)"
  shows "read_csv_row (csv_row_text m) = Inr (reread r m)"
proof -
  have d: "stod (put_double (total_return m)) = Inr (r (total_return m))"
    "stod (put_double (sharpe_ratio m)) = Inr (r (sharpe_ratio m))"
    "stod (put_double (max_drawdown m)) = Inr (r (max_drawdown m))"
    "stod (put_double (win_rate m)) = Inr (r (win_rate m))"
    "stod (put_double (profit_factor m)) = Inr (r (profit_factor m))"
    "stod (put_double (composite_score m)) = Inr (r (composite_score m))"
    using assms(4) by (simp_all add: double_fields_def)
  have ps: "\<forall>p \<in> set (parameters m). stod (put_double p) = Inr (r p)"
    using assms(4) by (simp add: double_fields_def)
  have i: "stoi (put_int (total_trades m)) = Inr (total_trades m)"
    using assms(2,3) by (rule stoi_put_int)
  show ?thesis
  proof (cases "parameters m = []")
    case True
    then show ?thesis
      unfolding read_csv_row_def csv_row_tokens [OF assms(1)] Let_def
      by (simp add: read_field_def bind_exn_def d i reread_def StrategyMetrics_default_def)
  next
    case False
    then show ?thesis
      unfolding read_csv_row_def csv_row_tokens [OF assms(1)] Let_def
      by (simp add: read_field_def bind_exn_def d i reread_def StrategyMetrics_default_def
          getline_all_join_parameters read_parameters_printed [OF ps])
  qed
qed

lemma csv_row_text_no_newline:
  assumes "newline \<notin> set (strategy_name m)"
  shows "newline \<notin> set (csv_row_text m)"
  using assms
  by (simp add: csv_row_text_def put_double_no_delimiter put_int_no_delimiter
      join_parameters_no_newline newline_not_delimiter)

lemma getline_all_rows:
  assumes "\<forall>m \<in> set ms. newline \<notin> set (strategy_name m)"
  shows "getline_all newline (concat (map csv_row ms)) = map csv_row_text ms"
  using assms
proof (induction ms)
  case Nil
  show ?case by (simp add: getline_all_def)
next
  case (Cons m ms)
  have "newline \<notin> set (csv_row_text m)"
    using Cons.prems by (simp add: csv_row_text_no_newline)
  then have "getline_all newline (csv_row_text m @ newline # concat (map csv_row ms))
      = csv_row_text m # getline_all newline (concat (map csv_row ms))"
    by (rule getline_all_delim)
  moreover have "concat (map csv_row (m # ms))
      = csv_row_text m @ newline # concat (map csv_row ms)"
    by (simp add: csv_row_def)
  moreover have "getline_all newline (concat (map csv_row ms)) = map csv_row_text ms"
    using Cons by simp
  ultimately show ?case by simp
qed

lemma csv_header_text_no_newline: "newline \<notin> set csv_header_text"
  by (simp add: csv_header_text_def newline_def)

lemma getline_all_file:
  assumes "\<forall>m \<in> set ms. newline \<notin> set (strategy_name m)"
  shows "getline_all newline (csv_header @ concat (map csv_row ms))
           = csv_header_text # map csv_row_text ms"
  using getline_all_delim [OF csv_header_text_no_newline, of "concat (map csv_row ms)"]
    getline_all_rows [OF assms]
  by (simp add: csv_header_def)

lemma read_csv_rows_printed:
  assumes "\<forall>m \<in> set ms. CHR '','' \<notin> set (strategy_name m)
             \<and> - (2 ^ 31) \<le> total_trades m \<and> total_trades m \<le> 2 ^ 31 - 1
             \<and> (\<forall>x \<in> set (double_fields m). stod (put_double x) = Inr (r x))"
  shows "read_csv_rows (map csv_row_text ms) = Inr (map (reread r) ms)"
  using assms
proof (induction ms)
  case Nil
  show ?case by simp
next
  case (Cons m ms)
  have "read_csv_row (csv_row_text m) = Inr (reread r m)"
    using Cons.prems by (intro read_csv_row_printed) simp_all
  moreover have "read_csv_rows (map csv_row_text ms) = Inr (map (reread r) ms)"
    using Cons by simp
  ultimately show ?case by (simp add: bind_exn_def)
qed

lemma csv_round_trip_reading:
  assumes "writable fs filename"
    and "\<forall>m \<in> set ms. CHR '','' \<notin> set (strategy_name m) \<and> newline \<notin> set (strategy_name m)"
    and "\<forall>m \<in> set ms. - (2 ^ 31) \<le> total_trades m \<and> total_trades m \<le> 2 ^ 31 - 1"
    and "\<forall>m \<in> set ms. \<forall>x \<in> set (double_fields m). stod (put_double x) = Inr (r x)"
  shows "export_strategies_to_csv fs ms filename
           = (True, fs\<lparr>files := (files fs)(filename \<mapsto> csv_header @ concat (map csv_row ms))\<rparr>)"
    and "import_strategies_from_csv (snd (export_strategies_to_csv fs ms filename)) filename
           = Inr (map (reread r) ms)"
proof -
  show e: "export_strategies_to_csv fs ms filename
           = (True, fs\<lparr>files := (files fs)(filename \<mapsto> csv_header @ concat (map csv_row ms))\<rparr>)"
    using assms(1) by (simp add: export_strategies_to_csv_def)
  have l: "getline_all newline (csv_header @ concat (map csv_row ms))
           = csv_header_text # map csv_row_text ms"
    using assms(2) by (intro getline_all_file) simp
  have "read_csv_rows (map csv_row_text ms) = Inr (map (reread r) ms)"
    using assms(2,3,4) by (intro read_csv_rows_printed) simp
  then show "import_strategies_from_csv (snd (export_strategies_to_csv fs ms filename)) filename
           = Inr (map (reread r) ms)"
    by (simp add: e import_strategies_from_csv_def l)
qed

text \<open>
  Claim C5, as amended. For every list of \<open>StrategyMetrics\<close> whose names hold no comma and
  no newline, whose trade counts are \<open>int\<close> values, and whose floating-point fields and
  parameters are each read back exactly from their printed text (the default stream
  precision of six significant digits represents them), exporting to a writable file and
  importing that file yields the same list as far as the file holds it: the same names,
  the same seven numeric fields and the same parameter vectors.
\<close>

theorem csv_round_trip_of_exact_text:
  assumes "writable fs filename"
    and "\<forall>m \<in> set ms. CHR '','' \<notin> set (strategy_name m) \<and> newline \<notin> set (strategy_name m)"
    and "\<forall>m \<in> set ms. - (2 ^ 31) \<le> total_trades m \<and> total_trades m \<le> 2 ^ 31 - 1"
    and "\<forall>m \<in> set ms. \<forall>x \<in> set (double_fields m). stod (put_double x) = Inr x"
  shows "import_strategies_from_csv (snd (export_strategies_to_csv fs ms filename)) filename
           = Inr (map exported_fields ms)"
  unfolding exported_fields_def
  using assms by (rule csv_round_trip_reading(2))

lemma fine_fee_result_fields:
  "strategy_name fine_fee_result = ''SMA''" "total_trades fine_fee_result = 7"
  "double_fields fine_fee_result = [1 / 4, 0, 0, 0, 0, 0, 10, 40, 1 / 8192]"
  by (simp_all add: fine_fee_result_def double_fields_def StrategyMetrics_default_def)

lemma printed_samples:
  "stod (put_double (1 / 4)) = Inr (1 / 4)" "stod (put_double 0) = Inr 0"
  "stod (put_double 10) = Inr 10" "stod (put_double 40) = Inr 40"
  "stod (put_double (12207 / 100000000)) = Inr (12207 / 100000000)"
  "stod (put_double (1 / 8192)) = Inr (12207 / 100000000)"
  by (simp_all add: number_text_defs)

lemma exact_result_fields:
  "strategy_name exact_result = ''SMA''" "total_trades exact_result = 7"
  "double_fields exact_result = [1 / 4, 0, 0, 0, 0, 1 / 2, 10, 40, 1 / 128]"
  by (simp_all add: exact_result_def double_fields_def StrategyMetrics_default_def)

lemma printed_exactly:
  "stod (put_double (1 / 2)) = Inr (1 / 2)" "stod (put_double (1 / 128)) = Inr (1 / 128)"
  by (simp_all add: number_text_defs)

lemma printed_text_samples:
  "put_double (1 / 128) = ''0.0078125''" "put_double (1 / 8192) = ''0.00012207''"
  "put_double 1234567 = ''1.23457e+06''" "put_int (- 42) = ''-42''"
  by (simp_all add: number_text_defs)

theorem csv_round_trip_of_exact_text_witness:
  "import_strategies_from_csv
     (snd (export_strategies_to_csv no_files [exact_result] ''strategy_results.csv''))
     ''strategy_results.csv'' = Inr [exact_result]"
proof -
  have w: "writable no_files ''strategy_results.csv''" by (simp add: no_files_def)
  have n: "\<forall>m \<in> set [exact_result].
      CHR '','' \<notin> set (strategy_name m) \<and> newline \<notin> set (strategy_name m)"
    by (simp add: exact_result_fields newline_def)
  have t: "\<forall>m \<in> set [exact_result].
      - (2 ^ 31) \<le> total_trades m \<and> total_trades m \<le> 2 ^ 31 - 1"
    by (simp add: exact_result_fields)
  have d: "\<forall>m \<in> set [exact_result].
      \<forall>x \<in> set (double_fields m). stod (put_double x) = Inr x"
    by (simp add: exact_result_fields printed_samples printed_exactly)
  have "exported_fields exact_result = exact_result"
    by (simp add: exported_fields_def reread_def exact_result_def
        StrategyMetrics_default_def)
  then show ?thesis
    using csv_round_trip_of_exact_text [OF w n t d] by simp
qed

text \<open>
  Claim C5 as stated fails: a result with the fee parameter \<open>2^-13 = 0.0001220703125\<close> is
  exported as \<open>0.00012207\<close> and comes back with that parameter.
\<close>

theorem csv_round_trip_loses_digits:
  "import_strategies_from_csv
     (snd (export_strategies_to_csv no_files [fine_fee_result] ''strategy_results.csv''))
     ''strategy_results.csv'' = Inr [coarse_fee_result]
   \<and> parameters fine_fee_result = [10, 40, 1 / 8192]
   \<and> parameters coarse_fee_result = [10, 40, 12207 / 100000000]
   \<and> parameters coarse_fee_result \<noteq> parameters fine_fee_result"
proof -
  define r :: "real \<Rightarrow> real" where
    "r = (\<lambda>x. if x = 1 / 8192 then 12207 / 100000000 else x)"
  have w: "writable no_files ''strategy_results.csv''" by (simp add: no_files_def)
  have n: "\<forall>m \<in> set [fine_fee_result].
      CHR '','' \<notin> set (strategy_name m) \<and> newline \<notin> set (strategy_name m)"
    by (simp add: fine_fee_result_fields newline_def)
  have t: "\<forall>m \<in> set [fine_fee_result].
      - (2 ^ 31) \<le> total_trades m \<and> total_trades m \<le> 2 ^ 31 - 1"
    by (simp add: fine_fee_result_fields)
  have d: "\<forall>m \<in> set [fine_fee_result].
      \<forall>x \<in> set (double_fields m). stod (put_double x) = Inr (r x)"
    by (simp add: fine_fee_result_fields printed_samples r_def)
  have "reread r fine_fee_result = coarse_fee_result"
    by (simp add: reread_def r_def fine_fee_result_def coarse_fee_result_def
        StrategyMetrics_default_def)
  then have "import_strategies_from_csv
     (snd (export_strategies_to_csv no_files [fine_fee_result] ''strategy_results.csv''))
     ''strategy_results.csv'' = Inr [coarse_fee_result]"
    using csv_round_trip_reading(2) [OF w n t d] by simp
  then show ?thesis
    by (simp add: fine_fee_result_def coarse_fee_result_def)
qed

section \<open>Verification of the registry\<close>

lemma sample_signature:
  "generate_strategy_signature [10, 40, 1 / 2000] = ''10.00000000|40.00000000|0.00050000|''"
  by (simp add: generate_strategy_signature_def put_fixed_def number_text_defs)

lemma sample_region:
  "generate_parameter_region_id [10, 40, 1 / 2000] = ''10|40|0|''"
  by (simp add: generate_parameter_region_id_def std_round_def number_text_defs)



lemma update_exploration_region_open:
  assumes "db' reg = Some db"
  shows "update_exploration_region now reg rid score
           = (True, reg\<lparr>db' := Some (snd (update_parameter_region now db score rid))\<rparr>)"
  using assms by (simp add: update_exploration_region_def update_parameter_region_def)

lemma save_strategy_result_open:
  assumes "db' reg = Some db"
  shows "save_strategy_result now reg m
           = (True, reg\<lparr>db' := Some (snd (update_parameter_region now
                 (snd (insert_or_replace_strategy now db (strategy_name m)
                         (generate_strategy_signature (parameters m))
                         (''['' @ join_json (parameters m) @ '']'') m))
                 (composite_score m) (generate_parameter_region_id (parameters m))))\<rparr>)"
proof -
  define db1 where "db1 = snd (insert_or_replace_strategy now db (strategy_name m)
                         (generate_strategy_signature (parameters m))
                         (''['' @ join_json (parameters m) @ '']'') m)"
  have i: "insert_or_replace_strategy now db (strategy_name m)
             (generate_strategy_signature (parameters m))
             (''['' @ join_json (parameters m) @ '']'') m = (SQLITE_DONE, db1)"
    by (simp add: db1_def insert_or_replace_strategy_def Let_def)
  have u: "update_exploration_region now (reg\<lparr>db' := Some db1\<rparr>)
             (generate_parameter_region_id (parameters m)) (composite_score m)
           = (True, reg\<lparr>db' := Some (snd (update_parameter_region now db1 (composite_score m)
                 (generate_parameter_region_id (parameters m))))\<rparr>)"
    using update_exploration_region_open [of "reg\<lparr>db' := Some db1\<rparr>" db1] by simp
  show ?thesis
    unfolding save_strategy_result_def db1_def [symmetric]
    using assms i u by (simp add: Let_def)
qed

lemma save_strategy_result_succeeds:
  assumes "db' reg = Some db"
  shows "fst (save_strategy_result now reg m)"
    and "db' (snd (save_strategy_result now reg m)) \<noteq> None"
  using save_strategy_result_open [OF assms, of now m] by simp_all

lemma strategy_rows_after_save:
  assumes "db' reg = Some db"
  shows "length (strategy_rows (snd (save_strategy_result now reg m))
                   (generate_strategy_signature (parameters m))) = 1"
  unfolding save_strategy_result_open [OF assms]
  by (simp add: strategy_rows_def update_parameter_region_def insert_or_replace_strategy_def
      Let_def)

lemma find_map_region:
  fixes f :: "parameter_regions_row \<Rightarrow> parameter_regions_row"
  assumes "\<And>r. region_id (f r) = region_id r"
  shows "find (\<lambda>r. region_id r = rid) (map f rows)
           = map_option f (find (\<lambda>r. region_id r = rid) rows)"
  using assms by (induction rows) simp_all

lemma strategies_untouched_by_region_update:
  "parameter_regions (snd (insert_or_replace_strategy now db name hash json m))
     = parameter_regions db"
  by (simp add: insert_or_replace_strategy_def Let_def)

lemma region_row_after_save:
  assumes "db' reg = Some db"
    and "region_row reg (generate_parameter_region_id (parameters m)) = Some row"
  shows "region_row (snd (save_strategy_result now reg m))
           (generate_parameter_region_id (parameters m))
         = Some (row\<lparr>exploration_count := exploration_count row + 1,
                     best_score := max (best_score row) (composite_score m),
                     last_tested := now\<rparr>)"
proof -
  define rid where "rid = generate_parameter_region_id (parameters m)"
  define f :: "parameter_regions_row \<Rightarrow> parameter_regions_row" where
    "f = (\<lambda>r. if region_id r = rid
                     then r\<lparr>exploration_count := exploration_count r + 1,
                            best_score := max (best_score r) (composite_score m),
                            last_tested := now\<rparr>
                     else r)"
  have f: "region_id (f r) = region_id r" for r by (simp add: f_def)
  have found: "find (\<lambda>r. region_id r = rid) (parameter_regions db) = Some row"
    using assms by (simp add: region_row_def rid_def)
  then have "region_id row = rid"
    by (auto simp add: find_Some_iff)
  then have "f row = row\<lparr>exploration_count := exploration_count row + 1,
                     best_score := max (best_score row) (composite_score m),
                     last_tested := now\<rparr>"
    by (simp add: f_def)
  moreover have "region_row (snd (save_strategy_result now reg m)) rid
      = find (\<lambda>r. region_id r = rid) (map f (parameter_regions db))"
    unfolding save_strategy_result_open [OF assms(1)]
    by (simp add: region_row_def update_parameter_region_def
        strategies_untouched_by_region_update rid_def f_def)
  ultimately show ?thesis
    unfolding rid_def [symmetric] by (simp add: find_map_region [of f, OF f] found)
qed

lemma get_exploration_count_region_row:
  "get_exploration_count reg rid
     = (case region_row reg rid of
          None \<Rightarrow> 0
        | Some r \<Rightarrow> sqlite3_column_int (exploration_count r))"
  by (simp add: get_exploration_count_def region_row_def split: option.splits)

lemma region_row_not_inserted:
  assumes "db' reg = Some db"
    and "region_row reg (generate_parameter_region_id (parameters m)) = None"
  shows "region_row (snd (save_strategy_result now reg m))
           (generate_parameter_region_id (parameters m)) = None"
proof -
  have "\<forall>r \<in> set (parameter_regions db).
          region_id r \<noteq> generate_parameter_region_id (parameters m)"
    using assms by (auto simp add: region_row_def find_None_iff)
  then show ?thesis
    unfolding save_strategy_result_open [OF assms(1)]
    by (simp add: region_row_def update_parameter_region_def
        strategies_untouched_by_region_update find_None_iff)
qed

text \<open>No save adds a row to the table of the regions or removes one.\<close>

lemma region_ids_after_save:
  assumes "db' reg = Some db"
  shows "map region_id (region_rows (snd (save_strategy_result now reg m)))
           = map region_id (region_rows reg)"
proof -
  have "map region_id (map (\<lambda>r. if region_id r = rid
                     then r\<lparr>exploration_count := exploration_count r + 1,
                            best_score := max (best_score r) score, last_tested := now\<rparr>
                     else r) rows) = map region_id rows"
    for rid score and rows :: "parameter_regions_row list"
    by (induction rows) simp_all
  then show ?thesis
    unfolding save_strategy_result_open [OF assms]
    by (simp add: region_rows_def assms update_parameter_region_def
        strategies_untouched_by_region_update)
qed

lemma sma_result_ids:
  "generate_strategy_signature (parameters sma_result) = ''10.00000000|40.00000000|0.00050000|''"
  "generate_parameter_region_id (parameters sma_result) = ''10|40|0|''"
  by (simp_all add: sma_result_def sample_signature sample_region)

lemma fresh_registry_open:
  "db' fresh_registry = Some \<lparr>strategies = [], strategies_sequence = 0, parameter_regions = []\<rparr>"
  by (simp add: fresh_registry_def)

text \<open>
  Claim C1, on the code as it is. On an initialized registry, two calls of
  \<open>save_strategy_result\<close> with the same parameter vector both succeed and leave exactly one
  row with the signature of that vector in the \<open>strategies\<close> table. The table of the
  regions has the same region ids after the two saves as before them: the step of the
  \<open>UPDATE\<close> in \<open>update_exploration_region\<close> is done also when no row matches, so the
  \<open>INSERT\<close> of a new region is never reached. A region that has no row before the saves has
  none after either of them, and its exploration count is read as 0, where the claim has a
  row inserted by the first save with count 1.
\<close>

theorem save_twice_never_inserts_region:
  assumes "db' reg = Some db" and "parameters m2 = parameters m1"
  shows "fst (save_strategy_result now1 reg m1)
         \<and> fst (save_strategy_result now2 (snd (save_strategy_result now1 reg m1)) m2)
         \<and> length (strategy_rows
               (snd (save_strategy_result now2 (snd (save_strategy_result now1 reg m1)) m2))
               (generate_strategy_signature (parameters m1))) = 1
         \<and> map region_id (region_rows
               (snd (save_strategy_result now2 (snd (save_strategy_result now1 reg m1)) m2)))
             = map region_id (region_rows reg)
         \<and> (region_row reg (generate_parameter_region_id (parameters m1)) = None \<longrightarrow>
               region_row (snd (save_strategy_result now1 reg m1))
                   (generate_parameter_region_id (parameters m1)) = None
               \<and> get_exploration_count (snd (save_strategy_result now1 reg m1))
                   (generate_parameter_region_id (parameters m1)) = 0
               \<and> region_row
                   (snd (save_strategy_result now2 (snd (save_strategy_result now1 reg m1)) m2))
                   (generate_parameter_region_id (parameters m1)) = None
               \<and> get_exploration_count
                   (snd (save_strategy_result now2 (snd (save_strategy_result now1 reg m1)) m2))
                   (generate_parameter_region_id (parameters m1)) = 0)"
proof -
  define reg1 where "reg1 = snd (save_strategy_result now1 reg m1)"
  define rid where "rid = generate_parameter_region_id (parameters m1)"
  obtain db1 where db1: "db' reg1 = Some db1"
    using save_strategy_result_succeeds(2) [OF assms(1), of now1 m1] by (auto simp add: reg1_def)
  have rows: "length (strategy_rows (snd (save_strategy_result now2 reg1 m2))
               (generate_strategy_signature (parameters m1))) = 1"
    using strategy_rows_after_save [OF db1, of now2 m2] by (simp add: assms(2))
  have ids: "map region_id (region_rows (snd (save_strategy_result now2 reg1 m2)))
               = map region_id (region_rows reg)"
    using region_ids_after_save [OF db1, of now2 m2] region_ids_after_save [OF assms(1), of now1 m1]
    by (simp add: reg1_def)
  have absent: "region_row reg1 rid = None
      \<and> get_exploration_count reg1 rid = 0
      \<and> region_row (snd (save_strategy_result now2 reg1 m2)) rid = None
      \<and> get_exploration_count (snd (save_strategy_result now2 reg1 m2)) rid = 0"
    if none: "region_row reg rid = None"
  proof -
    have r1: "region_row reg1 rid = None"
      unfolding reg1_def rid_def using assms(1) none [unfolded rid_def]
      by (rule region_row_not_inserted)
    have "region_row (snd (save_strategy_result now2 reg1 m2))
            (generate_parameter_region_id (parameters m2)) = None"
      using db1 r1 [unfolded rid_def assms(2) [symmetric]] by (rule region_row_not_inserted)
    then have r2: "region_row (snd (save_strategy_result now2 reg1 m2)) rid = None"
      by (simp add: rid_def assms(2))
    show ?thesis
      using r1 r2 by (simp add: get_exploration_count_region_row)
  qed
  show ?thesis
    unfolding reg1_def [symmetric] rid_def [symmetric]
    using save_strategy_result_succeeds(1) [OF assms(1), of now1 m1]
      save_strategy_result_succeeds(1) [OF db1, of now2 m2] rows ids absent
    by (simp add: reg1_def)
qed

theorem save_twice_never_inserts_region_witness:
  "fst (save_strategy_result 1 fresh_registry sma_result)
   \<and> fst (save_strategy_result 2 (snd (save_strategy_result 1 fresh_registry sma_result))
            sma_result)
   \<and> generate_strategy_signature (parameters sma_result)
       = ''10.00000000|40.00000000|0.00050000|''
   \<and> length (strategy_rows
       (snd (save_strategy_result 2 (snd (save_strategy_result 1 fresh_registry sma_result))
               sma_result))
       ''10.00000000|40.00000000|0.00050000|'') = 1
   \<and> generate_parameter_region_id (parameters sma_result) = ''10|40|0|''
   \<and> region_rows fresh_registry = []
   \<and> region_rows
       (snd (save_strategy_result 2 (snd (save_strategy_result 1 fresh_registry sma_result))
               sma_result)) = []
   \<and> region_row (snd (save_strategy_result 1 fresh_registry sma_result)) ''10|40|0|'' = None
   \<and> get_exploration_count (snd (save_strategy_result 1 fresh_registry sma_result))
       ''10|40|0|'' = 0
   \<and> region_row
       (snd (save_strategy_result 2 (snd (save_strategy_result 1 fresh_registry sma_result))
               sma_result))
       ''10|40|0|'' = None
   \<and> get_exploration_count
       (snd (save_strategy_result 2 (snd (save_strategy_result 1 fresh_registry sma_result))
               sma_result))
       ''10|40|0|'' = 0"
proof -
  have p: "parameters sma_result = parameters sma_result" by simp
  have e: "region_rows fresh_registry = []"
    by (simp add: region_rows_def fresh_registry_def)
  have n: "region_row fresh_registry ''10|40|0|'' = None"
    by (simp add: region_row_def fresh_registry_def)
  note T = save_twice_never_inserts_region [OF fresh_registry_open p, of 1 2,
      unfolded sma_result_ids]
  from T [THEN conjunct1] T [THEN conjunct2, THEN conjunct1]
    T [THEN conjunct2, THEN conjunct2, THEN conjunct1]
    T [THEN conjunct2, THEN conjunct2, THEN conjunct2, THEN conjunct1]
    T [THEN conjunct2, THEN conjunct2, THEN conjunct2, THEN conjunct2, rule_format, OF n]
  show ?thesis by (simp add: e sma_result_ids)
qed

end
